theory Spec2Isabelle
  imports Main "HOL-Library.Word"
begin

section \<open>Tokens and runtime values\<close>

text \<open>The enumeration \<^verbatim>\<open>TokenType\<close>, in the order of the source.\<close>

datatype TokenType =
    LPAREN | RPAREN | LBRACE | RBRACE | COMMA | DOT | MINUS | PLUS | SEMICOLON | SLASH | STAR
  | PERCENT
  | BANG | BANG_EQ | EQ | EQ_EQ | GT | GT_EQ | LT | LT_EQ | PLUS_EQ | MINUS_EQ | STAR_EQ
  | SLASH_EQ | PERCENT_EQ
  | IDENTIFIER | STRING | NUMBER
  | AND | CLASS | ELSE | FALSE | FUN | FOR | IF | NIL | OR | RETURN | SUPER | THIS | TRUE | VAR
  | WHILE
  | EOF

text \<open>
  A host number is an IEEE-754 binary64; the model keeps its 64 bits and never computes
  with them: arithmetic is the host's (see \<open>Host\<close> below). Objects (callables, classes,
  instances) have reference identity: a value holds their address in the store.
\<close>

type_synonym number = "64 word"

datatype InternalValue =
    VString string
  | VNumber number
  | VBool bool
  | VNil
  | VCallable nat
  | VClass nat
  | VInstance nat

record Token =
  type :: TokenType
  lexeme :: string
  literal :: InternalValue
  line :: nat
  column :: int

section \<open>The syntax tree\<close>

text \<open>
  The resolver's side table is keyed by the identity of the node object. The nodes that
  are ever used as keys (\<^verbatim>\<open>VariableExpr\<close>, \<^verbatim>\<open>AssignExpr\<close>, \<^verbatim>\<open>ThisExpr\<close>,
  \<^verbatim>\<open>SuperExpr\<close>) carry that identity as a natural number, their first argument.
  The superclass of a class statement is a \<^verbatim>\<open>VariableExpr\<close> or null: its identity and
  its name.
\<close>

datatype Expr =
    BinaryExpr Expr Token Expr
  | GroupingExpr Expr
  | LiteralExpr InternalValue
  | LogicalExpr Expr Token Expr
  | UnaryExpr Token Expr
  | VariableExpr nat Token
  | AssignExpr nat Token "Token option" Expr
  | CallExpr Expr Token "Expr list"
  | GetExpr Expr Token
  | SetExpr Expr Token "Token option" Expr
  | ThisExpr nat Token
  | SuperExpr nat Token Token

datatype Stmt =
    ExpressionStmt Expr
  | VarStmt Token "Expr option"
  | BlockStmt "Stmt list"
  | IfStmt Expr Stmt "Stmt option"
  | WhileStmt Expr Stmt
  | FunctionStmt FunctionDecl
  | ReturnStmt Token "Expr option"
  | ClassStmt Token "(nat \<times> Token) option" "FunctionDecl list"
and FunctionDecl =
    FunctionDecl (name: Token) (params: "Token list") (body: "Stmt list")

section \<open>The store\<close>

record Environment =
  vals :: "string \<rightharpoonup> InternalValue"
  enclosing :: "nat option"

record LoxFunction =
  decl :: FunctionDecl
  closure :: nat
  isInitializer :: bool

datatype Native = Print | Input | Clock

datatype Callable = NativeFn Native | Function LoxFunction

text \<open>
  A class is immutable once constructed, and its superclass and its method objects are
  never handed out as values (a method is only ever handed out bound, as a new object), so
  the class object holds them by value. The source's \<^verbatim>\<open>superclass\<close> field is a class
  or a falsy value; \<^verbatim>\<open>findMethod\<close> only tests it for truthiness, so a falsy one is
  \<open>None\<close> here.
\<close>

datatype LoxClass =
  LoxClass (class_name: string) (superclass: "LoxClass option")
    (methods: "string \<rightharpoonup> LoxFunction")

record LoxInstance =
  klass :: nat
  inst_fields :: "string \<rightharpoonup> InternalValue"

text \<open>
  The interpreter object, the objects it can reach, and the two diagnostic fields of
  \<^verbatim>\<open>Lox\<close> the evaluator writes. Each kind of object has its own address space and
  allocation counter. \<open>env\<close> is the field \<^verbatim>\<open>Interpreter.env\<close>; the read-only field
  \<^verbatim>\<open>Interpreter.globals\<close> is the first environment ever allocated.
\<close>

record State =
  envs :: "nat \<Rightarrow> Environment"
  nextEnv :: nat
  callables :: "nat \<Rightarrow> Callable"
  nextCallable :: nat
  classes :: "nat \<Rightarrow> LoxClass"
  nextClass :: nat
  instances :: "nat \<Rightarrow> LoxInstance"
  nextInstance :: nat
  env :: nat
  locals :: "nat \<rightharpoonup> nat"
  stdout :: "string list"
  ioCount :: nat
  hadRuntimeError :: bool
  reported :: "(Token \<times> string) list"

definition globals :: nat where
  "globals = 0"

text \<open>
  What the evaluator leaves to the host: the arithmetic and comparison operators on
  arbitrary operands, unary minus, the printing of a number, a line of input, the clock.
  The input and the clock are functions of the number of host interactions so far.
\<close>

record Host =
  hostBinary :: "State \<Rightarrow> TokenType \<Rightarrow> InternalValue \<Rightarrow> InternalValue \<Rightarrow> InternalValue"
  hostNegate :: "State \<Rightarrow> InternalValue \<Rightarrow> InternalValue"
  numberToString :: "number \<Rightarrow> string"
  readLine :: "nat \<Rightarrow> string \<Rightarrow> InternalValue"
  dateNow :: "nat \<Rightarrow> number"

text \<open>
  Exceptions: the two classes the evaluator throws, and the host's \<^verbatim>\<open>TypeError\<close>
  (a method call on a value that has no such method). A computation yields \<open>None\<close> when
  its fuel runs out, and otherwise an exception or a result, with the state it left.
\<close>

datatype exc = RuntimeError Token string | Return InternalValue | TypeError

type_synonym 'a result = "((exc + 'a) \<times> State) option"

definition andThen ::
  "(('e + 'a) \<times> 's) option \<Rightarrow> ('a \<Rightarrow> 's \<Rightarrow> (('e + 'b) \<times> 's) option)
     \<Rightarrow> (('e + 'b) \<times> 's) option" where
  "andThen m f =
     (case m of
        None \<Rightarrow> None
      | Some (Inl e, st) \<Rightarrow> Some (Inl e, st)
      | Some (Inr v, st) \<Rightarrow> f v st)"

section \<open>Truthiness and equality of the host\<close>

text \<open>
  The evaluator tests values with the host's own conversion to boolean
  (\<^verbatim>\<open>if (left)\<close>, \<^verbatim>\<open>!right\<close>, \<^verbatim>\<open>while (this.visit(...))\<close>): null, false,
  the numbers \<open>+0\<close>, \<open>-0\<close> and NaN, and the empty string are falsy.
\<close>

definition isNaN :: "number \<Rightarrow> bool" where
  "isNaN w = (0x7FF0000000000000 < take_bit 63 w)"

definition isZero :: "number \<Rightarrow> bool" where
  "isZero w = (take_bit 63 w = 0)"

fun truthy :: "InternalValue \<Rightarrow> bool" where
  "truthy VNil = False"
| "truthy (VBool b) = b"
| "truthy (VNumber w) = (\<not> isZero w \<and> \<not> isNaN w)"
| "truthy (VString s) = (s \<noteq> [])"
| "truthy (VCallable a) = True"
| "truthy (VClass a) = True"
| "truthy (VInstance a) = True"

text \<open>The host's \<^verbatim>\<open>===\<close>.\<close>

fun strictEquals :: "InternalValue \<Rightarrow> InternalValue \<Rightarrow> bool" where
  "strictEquals (VNumber a) (VNumber b) =
     (\<not> isNaN a \<and> \<not> isNaN b \<and> (a = b \<or> (isZero a \<and> isZero b)))"
| "strictEquals a b = (a = b)"

section \<open>Environments\<close>

definition newEnvironment :: "nat option \<Rightarrow> State \<Rightarrow> nat \<times> State" where
  "newEnvironment parent st =
     (nextEnv st,
      st\<lparr>envs := (envs st)(nextEnv st := \<lparr>vals = Map.empty, enclosing = parent\<rparr>),
         nextEnv := Suc (nextEnv st)\<rparr>)"

definition Environment_define :: "nat \<Rightarrow> string \<Rightarrow> InternalValue \<Rightarrow> State \<Rightarrow> State" where
  "Environment_define a n v st = st\<lparr>envs := (envs st)(a := (envs st a)\<lparr>vals := (vals (envs st a))(n \<mapsto> v)\<rparr>)\<rparr>"

definition undefinedVariable :: "Token \<Rightarrow> exc" where
  "undefinedVariable n =
     RuntimeError n (''Undefined variable '' @ [CHR 0x27] @ lexeme n @ [CHR 0x27] @ ''.'')"

text \<open>\<^verbatim>\<open>Environment.get\<close> and \<^verbatim>\<open>Environment.assign\<close> recurse along the chain.\<close>

fun Environment_get :: "nat \<Rightarrow> (nat \<Rightarrow> Environment) \<Rightarrow> nat \<Rightarrow> Token \<Rightarrow> (exc + InternalValue) option" where
  "Environment_get 0 es a n = None"
| "Environment_get (Suc k) es a n =
     (case vals (es a) (lexeme n) of
        Some v \<Rightarrow> Some (Inr v)
      | None \<Rightarrow>
          (case enclosing (es a) of
             Some b \<Rightarrow> Environment_get k es b n
           | None \<Rightarrow> Some (Inl (undefinedVariable n))))"

fun Environment_assign ::
  "nat \<Rightarrow> (nat \<Rightarrow> Environment) \<Rightarrow> nat \<Rightarrow> Token \<Rightarrow> InternalValue \<Rightarrow> (exc + (nat \<Rightarrow> Environment)) option" where
  "Environment_assign 0 es a n v = None"
| "Environment_assign (Suc k) es a n v =
     (case vals (es a) (lexeme n) of
        Some old \<Rightarrow> Some (Inr (es(a := (es a)\<lparr>vals := (vals (es a))(lexeme n \<mapsto> v)\<rparr>)))
      | None \<Rightarrow>
          (case enclosing (es a) of
             Some b \<Rightarrow> Environment_assign k es b n v
           | None \<Rightarrow> Some (Inl (undefinedVariable n))))"

fun ancestor :: "(nat \<Rightarrow> Environment) \<Rightarrow> nat option \<Rightarrow> nat \<Rightarrow> nat option" where
  "ancestor es e 0 = e"
| "ancestor es e (Suc d) =
     ancestor es (case e of None \<Rightarrow> None | Some a \<Rightarrow> enclosing (es a)) d"

definition getAt :: "(nat \<Rightarrow> Environment) \<Rightarrow> nat \<Rightarrow> nat \<Rightarrow> string \<Rightarrow> InternalValue" where
  "getAt es a distance n =
     (case ancestor es (Some a) distance of
        None \<Rightarrow> VNil
      | Some b \<Rightarrow> (case vals (es b) n of None \<Rightarrow> VNil | Some v \<Rightarrow> v))"

definition assignAt ::
  "(nat \<Rightarrow> Environment) \<Rightarrow> nat \<Rightarrow> nat \<Rightarrow> Token \<Rightarrow> InternalValue \<Rightarrow> (nat \<Rightarrow> Environment)" where
  "assignAt es a distance n v =
     (case ancestor es (Some a) distance of
        None \<Rightarrow> es
      | Some b \<Rightarrow> es(b := (es b)\<lparr>vals := (vals (es b))(lexeme n \<mapsto> v)\<rparr>))"

section \<open>Callables, classes and instances\<close>

definition allocCallable :: "Callable \<Rightarrow> State \<Rightarrow> nat \<times> State" where
  "allocCallable c st =
     (nextCallable st,
      st\<lparr>callables := (callables st)(nextCallable st := c), nextCallable := Suc (nextCallable st)\<rparr>)"

definition allocClass :: "LoxClass \<Rightarrow> State \<Rightarrow> nat \<times> State" where
  "allocClass c st =
     (nextClass st,
      st\<lparr>classes := (classes st)(nextClass st := c), nextClass := Suc (nextClass st)\<rparr>)"

definition allocInstance :: "LoxInstance \<Rightarrow> State \<Rightarrow> nat \<times> State" where
  "allocInstance i st =
     (nextInstance st,
      st\<lparr>instances := (instances st)(nextInstance st := i), nextInstance := Suc (nextInstance st)\<rparr>)"

fun findMethod :: "LoxClass \<Rightarrow> string \<Rightarrow> LoxFunction option" where
  "findMethod (LoxClass n sc ms) m =
     (case ms m of
        Some f \<Rightarrow> Some f
      | None \<Rightarrow> (case sc of Some c \<Rightarrow> findMethod c m | None \<Rightarrow> None))"

text \<open>
  \<^verbatim>\<open>LoxFunction.bind\<close>: a new environment defining \<^verbatim>\<open>this\<close>, and a new function
  constructed from the declaration and that environment: the constructor's third
  parameter is left to its default, false.
\<close>

definition LoxFunction_bind :: "LoxFunction \<Rightarrow> InternalValue \<Rightarrow> State \<Rightarrow> LoxFunction \<times> State" where
  "LoxFunction_bind f inst st =
     (let (environment, st1) = newEnvironment (Some (closure f)) st
      in (\<lparr>decl = decl f, closure = environment, isInitializer = False\<rparr>,
          Environment_define environment ''this'' inst st1))"

definition undefinedProperty :: "Token \<Rightarrow> string" where
  "undefinedProperty n = ''Undefined property '' @ [CHR 0x27] @ lexeme n @ [CHR 0x27]"

definition LoxInstance_get :: "nat \<Rightarrow> Token \<Rightarrow> State \<Rightarrow> (exc + InternalValue) \<times> State" where
  "LoxInstance_get i n st =
     (case inst_fields (instances st i) (lexeme n) of
        Some v \<Rightarrow> (Inr v, st)
      | None \<Rightarrow>
          (case findMethod (classes st (klass (instances st i))) (lexeme n) of
             Some method \<Rightarrow>
               (let (f, st1) = LoxFunction_bind method (VInstance i) st;
                    (a, st2) = allocCallable (Function f) st1
                in (Inr (VCallable a), st2))
           | None \<Rightarrow> (Inl (RuntimeError n (undefinedProperty n)), st)))"

definition LoxInstance_set :: "nat \<Rightarrow> Token \<Rightarrow> InternalValue \<Rightarrow> State \<Rightarrow> State" where
  "LoxInstance_set i n v st =
     st\<lparr>instances := (instances st)
           (i := (instances st i)\<lparr>inst_fields := (inst_fields (instances st i))(lexeme n \<mapsto> v)\<rparr>)\<rparr>"

fun isCallable :: "InternalValue \<Rightarrow> bool" where
  "isCallable (VCallable a) = True"
| "isCallable (VClass c) = True"
| "isCallable v = False"

fun arity :: "State \<Rightarrow> InternalValue \<Rightarrow> nat" where
  "arity st (VCallable a) =
     (case callables st a of
        NativeFn Print \<Rightarrow> 1
      | NativeFn Input \<Rightarrow> 1
      | NativeFn Clock \<Rightarrow> 0
      | Function f \<Rightarrow> length (params (decl f)))"
| "arity st (VClass c) =
     (case findMethod (classes st c) ''init'' of
        Some initializer \<Rightarrow> length (params (decl initializer))
      | None \<Rightarrow> 0)"
| "arity st v = 0"

function showNat :: "nat \<Rightarrow> string" where
  "showNat n =
     (if n < 10 then [''0123456789'' ! n]
      else showNat (n div 10) @ [''0123456789'' ! (n mod 10)])"
  by pat_completeness auto
termination
  by (relation "measure id") auto

declare showNat.simps [simp del]

text \<open>The host's conversion of a value to a string, and \<^verbatim>\<open>Interpreter.stringify\<close>.\<close>

fun toString :: "Host \<Rightarrow> State \<Rightarrow> InternalValue \<Rightarrow> string" where
  "toString h st (VString s) = s"
| "toString h st (VNumber w) = numberToString h w"
| "toString h st (VBool b) = (if b then ''true'' else ''false'')"
| "toString h st VNil = ''null''"
| "toString h st (VCallable a) =
     (case callables st a of
        NativeFn k \<Rightarrow> ''<native fn>''
      | Function f \<Rightarrow> ''<fun '' @ lexeme (name (decl f)) @ ''>'')"
| "toString h st (VClass c) = ''<class '' @ class_name (classes st c) @ ''>''"
| "toString h st (VInstance i) =
     ''<'' @ class_name (classes st (klass (instances st i))) @ '' instance>''"

definition stringify :: "Host \<Rightarrow> State \<Rightarrow> InternalValue \<Rightarrow> string" where
  "stringify h st v = (if v = VNil then ''nil'' else toString h st v)"

text \<open>
  The three native functions. They are only called with as many arguments as their
  arity (see \<open>visitExpr\<close> on a call), so the first argument exists where it is read.
\<close>

fun callNative :: "Host \<Rightarrow> Native \<Rightarrow> InternalValue list \<Rightarrow> State \<Rightarrow> InternalValue \<times> State" where
  "callNative h Print args st =
     (VNil, st\<lparr>stdout := stdout st @ [stringify h st (case args of [] \<Rightarrow> VNil | a # _ \<Rightarrow> a)]\<rparr>)"
| "callNative h Input args st =
     (let prompt = toString h st (case args of [] \<Rightarrow> VNil | a # _ \<Rightarrow> a)
      in (readLine h (ioCount st) prompt,
          st\<lparr>stdout := stdout st @ [prompt], ioCount := Suc (ioCount st)\<rparr>))"
| "callNative h Clock args st =
     (VNumber (dateNow h (ioCount st)), st\<lparr>ioCount := Suc (ioCount st)\<rparr>)"

text \<open>
  \<^verbatim>\<open>Interpreter.binaryOp\<close>: the arithmetic and the ordering are the host's, on
  whatever the operands are; equality is the host's strict equality.
\<close>

definition binaryOp :: "Host \<Rightarrow> State \<Rightarrow> Token \<Rightarrow> InternalValue \<Rightarrow> InternalValue \<Rightarrow> InternalValue" where
  "binaryOp h st operator left right =
     (if type operator \<in> {PLUS, MINUS, SLASH, STAR, PERCENT, GT, GT_EQ, LT, LT_EQ}
      then hostBinary h st (type operator) left right
      else if type operator = BANG_EQ then VBool (\<not> strictEquals left right)
      else if type operator = EQ_EQ then VBool (strictEquals left right)
      else VNil)"

definition lookUpVariable :: "nat \<Rightarrow> State \<Rightarrow> Token \<Rightarrow> nat \<Rightarrow> InternalValue result" where
  "lookUpVariable k st n expr =
     (case locals st expr of
        Some distance \<Rightarrow> Some (Inr (getAt (envs st) (env st) distance (lexeme n)), st)
      | None \<Rightarrow>
          (case Environment_get k (envs st) globals n of
             None \<Rightarrow> None
           | Some r \<Rightarrow> Some (r, st)))"

fun defineParams :: "nat \<Rightarrow> Token list \<Rightarrow> InternalValue list \<Rightarrow> State \<Rightarrow> State" where
  "defineParams e [] args st = st"
| "defineParams e (p # ps) args st =
     defineParams e ps (tl args)
       (Environment_define e (lexeme p) (case args of [] \<Rightarrow> VNil | a # _ \<Rightarrow> a) st)"

section \<open>The evaluator\<close>

text \<open>
  The \<^verbatim>\<open>map\<close> over the arguments of a call and the loop over a statement list (in
  \<^verbatim>\<open>executeBlock\<close> and in \<^verbatim>\<open>evaluate\<close>), for a given visitor; both stop at the
  first exception. \<^verbatim>\<open>executeBlock\<close> restores the current environment in its
  \<^verbatim>\<open>finally\<close> clause, whatever the outcome of the loop.
\<close>

primrec visitArgsWith ::
  "(Expr \<Rightarrow> State \<Rightarrow> InternalValue result) \<Rightarrow> Expr list \<Rightarrow> State \<Rightarrow> InternalValue list result" where
  "visitArgsWith visit [] st = Some (Inr [], st)"
| "visitArgsWith visit (e # es) st =
     andThen (visit e st) (\<lambda>v st1.
     andThen (visitArgsWith visit es st1) (\<lambda>vs st2. Some (Inr (v # vs), st2)))"

primrec executeStmtsWith ::
  "(Stmt \<Rightarrow> State \<Rightarrow> InternalValue result) \<Rightarrow> Stmt list \<Rightarrow> State \<Rightarrow> InternalValue result" where
  "executeStmtsWith visit [] st = Some (Inr VNil, st)"
| "executeStmtsWith visit (s # ss) st =
     andThen (visit s st) (\<lambda>v st1. executeStmtsWith visit ss st1)"

definition executeBlockWith ::
  "(Stmt \<Rightarrow> State \<Rightarrow> InternalValue result) \<Rightarrow> Stmt list \<Rightarrow> nat \<Rightarrow> State \<Rightarrow> InternalValue result" where
  "executeBlockWith visit statements e st =
     (let previous = env st
      in case executeStmtsWith visit statements (st\<lparr>env := e\<rparr>) of
           None \<Rightarrow> None
         | Some (r, st1) \<Rightarrow> Some (r, st1\<lparr>env := previous\<rparr>))"

text \<open>
  The methods of the evaluator that call each other: \<^verbatim>\<open>visit\<close> on an expression and
  on a statement, the loop of \<^verbatim>\<open>visitWhileStmt\<close>, \<^verbatim>\<open>callee.call\<close> (dispatched on
  the class of the callee) and \<^verbatim>\<open>LoxFunction.call\<close>. They are one function of the fuel
  and of which method runs; every call of one method to another spends one unit of fuel.
\<close>

datatype Task =
    VisitExpr Expr
  | VisitStmt Stmt
  | WhileLoop Expr Stmt
  | Call InternalValue "InternalValue list"
  | CallFunction LoxFunction "InternalValue list"

primrec run :: "nat \<Rightarrow> Host \<Rightarrow> Task \<Rightarrow> State \<Rightarrow> InternalValue result" where
  "run 0 h task st = None"
| "run (Suc n) h task st =
    (let visitExpr = (\<lambda>e. run n h (VisitExpr e));
         visitStmt = (\<lambda>s. run n h (VisitStmt s));
         whileLoop = (\<lambda>c b. run n h (WhileLoop c b));
         call = (\<lambda>callee args. run n h (Call callee args));
         LoxFunction_call = (\<lambda>f args. run n h (CallFunction f args))
     in
     case task of
       VisitExpr (LiteralExpr v) \<Rightarrow> Some (Inr v, st)
     | VisitExpr (GroupingExpr e) \<Rightarrow> visitExpr e st
     | VisitExpr (UnaryExpr operator r) \<Rightarrow>
         andThen (visitExpr r st) (\<lambda>right st1.
           if type operator = MINUS then
             (if right = VNil
              then Some (Inl (RuntimeError operator ''Unary minus on nil is not supported.''), st1)
              else Some (Inr (hostNegate h st1 right), st1))
           else if type operator = BANG then Some (Inr (VBool (\<not> truthy right)), st1)
           else Some (Inr VNil, st1))
     | VisitExpr (BinaryExpr l operator r) \<Rightarrow>
         andThen (visitExpr l st) (\<lambda>left st1.
         andThen (visitExpr r st1) (\<lambda>right st2.
           Some (Inr (binaryOp h st2 operator left right), st2)))
     | VisitExpr (AssignExpr expr nm operator e) \<Rightarrow>
         andThen (visitExpr e st) (\<lambda>v st1.
         andThen
           (case operator of
              None \<Rightarrow> Some (Inr v, st1)
            | Some opr \<Rightarrow>
                andThen (lookUpVariable n st1 nm expr) (\<lambda>current st2.
                  Some (Inr (binaryOp h st2 opr current v), st2)))
           (\<lambda>v' st3.
              case locals st3 expr of
                Some distance \<Rightarrow>
                  Some (Inr v', st3\<lparr>envs := assignAt (envs st3) (env st3) distance nm v'\<rparr>)
              | None \<Rightarrow>
                  (case Environment_assign n (envs st3) globals nm v' of
                     None \<Rightarrow> None
                   | Some (Inl x) \<Rightarrow> Some (Inl x, st3)
                   | Some (Inr es) \<Rightarrow> Some (Inr v', st3\<lparr>envs := es\<rparr>))))
     | VisitExpr (VariableExpr expr nm) \<Rightarrow> lookUpVariable n st nm expr
     | VisitExpr (LogicalExpr l operator r) \<Rightarrow>
         andThen (visitExpr l st) (\<lambda>left st1.
           if type operator = OR then
             (if truthy left then Some (Inr left, st1) else visitExpr r st1)
           else
             (if \<not> truthy left then Some (Inr left, st1) else visitExpr r st1))
     | VisitExpr (CallExpr calleeExpr paren arguments) \<Rightarrow>
         andThen (visitExpr calleeExpr st) (\<lambda>callee st1.
         andThen (visitArgsWith visitExpr arguments st1) (\<lambda>args st2.
           if \<not> isCallable callee
           then Some (Inl (RuntimeError paren ''Can only call functions and classes.''), st2)
           else if length args \<noteq> arity st2 callee
           then Some (Inl (RuntimeError paren
                  (''Expected '' @ showNat (arity st2 callee) @ '' arguments but got ''
                     @ showNat (length args) @ ''.'')), st2)
           else call callee args st2))
     | VisitExpr (GetExpr obj nm) \<Rightarrow>
         andThen (visitExpr obj st) (\<lambda>object st1.
           case object of
             VInstance i \<Rightarrow> Some (LoxInstance_get i nm st1)
           | _ \<Rightarrow> Some (Inl (RuntimeError nm ''Only instances have properties.''), st1))
     | VisitExpr (SetExpr obj nm operator e) \<Rightarrow>
         andThen (visitExpr obj st) (\<lambda>object st1.
           case object of
             VInstance i \<Rightarrow>
               andThen (visitExpr e st1) (\<lambda>v st2.
               andThen
                 (case operator of
                    None \<Rightarrow> Some (Inr v, st2)
                  | Some opr \<Rightarrow>
                      andThen (Some (LoxInstance_get i nm st2)) (\<lambda>current st3.
                        Some (Inr (binaryOp h st3 opr current v), st3)))
                 (\<lambda>v' st4. Some (Inr v', LoxInstance_set i nm v' st4)))
           | _ \<Rightarrow> Some (Inl (RuntimeError nm ''Only instances have properties.''), st1))
     | VisitExpr (ThisExpr expr keyword) \<Rightarrow> lookUpVariable n st keyword expr
     | VisitExpr (SuperExpr expr keyword method) \<Rightarrow>
         (let distance = (case locals st expr of Some d \<Rightarrow> d | None \<Rightarrow> 0);
              sc = getAt (envs st) (env st) distance ''super'';
              object = getAt (envs st) (env st) (distance - 1) ''this''
          in case sc of
               VClass c \<Rightarrow>
                 (case findMethod (classes st c) (lexeme method) of
                    None \<Rightarrow>
                      Some (Inl (RuntimeError method (undefinedProperty method @ ''.'')), st)
                  | Some m \<Rightarrow>
                      (let (f, st1) = LoxFunction_bind m object st;
                           (a, st2) = allocCallable (Function f) st1
                       in Some (Inr (VCallable a), st2)))
             | _ \<Rightarrow> Some (Inl TypeError, st))
     | VisitStmt (ExpressionStmt e) \<Rightarrow>
         andThen (visitExpr e st) (\<lambda>v st1. Some (Inr VNil, st1))
     | VisitStmt (VarStmt nm initializer) \<Rightarrow>
         andThen
           (case initializer of None \<Rightarrow> Some (Inr VNil, st) | Some e \<Rightarrow> visitExpr e st)
           (\<lambda>v st1. Some (Inr VNil, Environment_define (env st1) (lexeme nm) v st1))
     | VisitStmt (BlockStmt statements) \<Rightarrow>
         (let (e, st1) = newEnvironment (Some (env st)) st
          in executeBlockWith visitStmt statements e st1)
     | VisitStmt (IfStmt condition thenBranch elseBranch) \<Rightarrow>
         andThen (visitExpr condition st) (\<lambda>c st1.
           if truthy c
           then andThen (visitStmt thenBranch st1) (\<lambda>v st2. Some (Inr VNil, st2))
           else
             (case elseBranch of
                Some s \<Rightarrow> andThen (visitStmt s st1) (\<lambda>v st2. Some (Inr VNil, st2))
              | None \<Rightarrow> Some (Inr VNil, st1)))
     | VisitStmt (WhileStmt condition b) \<Rightarrow> whileLoop condition b st
     | VisitStmt (FunctionStmt d) \<Rightarrow>
         (let (a, st1) =
                allocCallable (Function \<lparr>decl = d, closure = env st, isInitializer = False\<rparr>) st
          in Some (Inr VNil, Environment_define (env st1) (lexeme (name d)) (VCallable a) st1))
     | VisitStmt (ReturnStmt keyword e) \<Rightarrow>
         andThen (case e of None \<Rightarrow> Some (Inr VNil, st) | Some x \<Rightarrow> visitExpr x st)
           (\<lambda>v st1. Some (Inl (Return v), st1))
     | VisitStmt (ClassStmt nm superclassExpr ms) \<Rightarrow>
         andThen
           (case superclassExpr of
              None \<Rightarrow> Some (Inr VNil, st)
            | Some (i, t) \<Rightarrow> visitExpr (VariableExpr i t) st)
           (\<lambda>sc st1.
              if truthy sc \<and> (case sc of VClass c \<Rightarrow> False | _ \<Rightarrow> True)
              then Some (Inl (RuntimeError
                            (case superclassExpr of Some (i, t) \<Rightarrow> t | None \<Rightarrow> nm)
                            ''Superclass must be a class.''), st1)
              else
                (let st2 = Environment_define (env st1) (lexeme nm) VNil st1;
                     st3 = (if superclassExpr \<noteq> None
                            then (let (e, s) = newEnvironment (Some (env st2)) st2
                                  in Environment_define e ''super'' sc (s\<lparr>env := e\<rparr>))
                            else st2);
                     methodMap = fold (\<lambda>m acc. acc(lexeme (name m) \<mapsto>
                                     \<lparr>decl = m, closure = env st3, isInitializer = False\<rparr>))
                                   ms Map.empty;
                     (c, st4) = allocClass
                                  (LoxClass (lexeme nm)
                                     (case sc of VClass k \<Rightarrow> Some (classes st3 k) | _ \<Rightarrow> None)
                                     methodMap) st3
                 in if superclassExpr \<noteq> None \<and> enclosing (envs st4 (env st4)) = None
                    then Some (Inl TypeError, st4)
                    else
                      (let st5 = (if superclassExpr \<noteq> None
                                  then st4\<lparr>env := (case enclosing (envs st4 (env st4)) of
                                                     Some p \<Rightarrow> p | None \<Rightarrow> env st4)\<rparr>
                                  else st4)
                       in case Environment_assign n (envs st5) (env st5) nm (VClass c) of
                            None \<Rightarrow> None
                          | Some (Inl x) \<Rightarrow> Some (Inl x, st5)
                          | Some (Inr es) \<Rightarrow> Some (Inr VNil, st5\<lparr>envs := es\<rparr>))))
     | WhileLoop c b \<Rightarrow>
         andThen (visitExpr c st) (\<lambda>v st1.
           if truthy v then andThen (visitStmt b st1) (\<lambda>u st2. whileLoop c b st2)
           else Some (Inr VNil, st1))
     | Call (VCallable a) args \<Rightarrow>
         (case callables st a of
            NativeFn k \<Rightarrow> (let (v, st1) = callNative h k args st in Some (Inr v, st1))
          | Function f \<Rightarrow> LoxFunction_call f args st)
     | Call (VClass c) args \<Rightarrow>
         (let (i, st1) = allocInstance \<lparr>klass = c, inst_fields = Map.empty\<rparr> st
          in case findMethod (classes st1 c) ''init'' of
               None \<Rightarrow> Some (Inr (VInstance i), st1)
             | Some initializer \<Rightarrow>
                 (let (f, st2) = LoxFunction_bind initializer (VInstance i) st1
                  in andThen (LoxFunction_call f args st2)
                       (\<lambda>v st3. Some (Inr (VInstance i), st3))))
     | Call _ args \<Rightarrow> Some (Inl TypeError, st)
     | CallFunction f args \<Rightarrow>
         (let (environment, st1) = newEnvironment (Some (closure f)) st;
              st2 = defineParams environment (params (decl f)) args st1
          in case executeBlockWith visitStmt (body (decl f)) environment st2 of
               None \<Rightarrow> None
             | Some (Inl (Return v), st3) \<Rightarrow>
                 if isInitializer f
                 then Some (Inr (getAt (envs st3) (closure f) 0 ''this''), st3)
                 else Some (Inr v, st3)
             | Some (Inl x, st3) \<Rightarrow> Some (Inl x, st3)
             | Some (Inr u, st3) \<Rightarrow>
                 if \<not> isInitializer f then Some (Inr VNil, st3)
                 else Some (Inr (getAt (envs st3) (closure f) 0 ''this''), st3)))"

definition visitExpr :: "nat \<Rightarrow> Host \<Rightarrow> Expr \<Rightarrow> State \<Rightarrow> InternalValue result" where
  "visitExpr n h = (\<lambda>e. run n h (VisitExpr e))"

definition visitStmt :: "nat \<Rightarrow> Host \<Rightarrow> Stmt \<Rightarrow> State \<Rightarrow> InternalValue result" where
  "visitStmt n h = (\<lambda>s. run n h (VisitStmt s))"

definition whileLoop :: "nat \<Rightarrow> Host \<Rightarrow> Expr \<Rightarrow> Stmt \<Rightarrow> State \<Rightarrow> InternalValue result" where
  "whileLoop n h = (\<lambda>c b. run n h (WhileLoop c b))"

definition call :: "nat \<Rightarrow> Host \<Rightarrow> InternalValue \<Rightarrow> InternalValue list \<Rightarrow> State \<Rightarrow> InternalValue result" where
  "call n h = (\<lambda>callee args. run n h (Call callee args))"

definition LoxFunction_call ::
  "nat \<Rightarrow> Host \<Rightarrow> LoxFunction \<Rightarrow> InternalValue list \<Rightarrow> State \<Rightarrow> InternalValue result" where
  "LoxFunction_call n h = (\<lambda>f args. run n h (CallFunction f args))"

definition visitArgs :: "nat \<Rightarrow> Host \<Rightarrow> Expr list \<Rightarrow> State \<Rightarrow> InternalValue list result" where
  "visitArgs n h = visitArgsWith (visitExpr n h)"

definition executeStmts :: "nat \<Rightarrow> Host \<Rightarrow> Stmt list \<Rightarrow> State \<Rightarrow> InternalValue result" where
  "executeStmts n h = executeStmtsWith (visitStmt n h)"

definition executeBlock :: "nat \<Rightarrow> Host \<Rightarrow> Stmt list \<Rightarrow> nat \<Rightarrow> State \<Rightarrow> InternalValue result" where
  "executeBlock n h = executeBlockWith (visitStmt n h)"

text \<open>
  \<^verbatim>\<open>Interpreter.evaluate\<close>: a runtime error is reported and flagged; any other exception
  is thrown on to the caller (the first component of the result).
\<close>

definition evaluate :: "nat \<Rightarrow> Host \<Rightarrow> Stmt list \<Rightarrow> State \<Rightarrow> (exc option \<times> State) option" where
  "evaluate n h statements st =
     (case executeStmts n h statements st of
        None \<Rightarrow> None
      | Some (Inr v, st1) \<Rightarrow> Some (None, st1)
      | Some (Inl (RuntimeError t m), st1) \<Rightarrow>
          Some (None, st1\<lparr>hadRuntimeError := True, reported := reported st1 @ [(t, m)]\<rparr>)
      | Some (Inl x, st1) \<Rightarrow> Some (Some x, st1))"

text \<open>
  The constructor of the interpreter: the globals environment with the three native
  functions and the class \<^verbatim>\<open>Object\<close>; the current environment is the globals.
\<close>

definition newInterpreter :: State where
  "newInterpreter =
     \<lparr>envs = (\<lambda>a. \<lparr>vals = Map.empty, enclosing = None\<rparr>)
         (globals := \<lparr>vals = [''print'' \<mapsto> VCallable 0, ''input'' \<mapsto> VCallable 1,
                               ''clock'' \<mapsto> VCallable 2, ''Object'' \<mapsto> VClass 0],
                      enclosing = None\<rparr>),
      nextEnv = 1,
      callables = (\<lambda>a. NativeFn Print)(1 := NativeFn Input, 2 := NativeFn Clock),
      nextCallable = 3,
      classes = (\<lambda>a. LoxClass ''Object'' None Map.empty),
      nextClass = 1,
      instances = (\<lambda>a. \<lparr>klass = 0, inst_fields = Map.empty\<rparr>),
      nextInstance = 0,
      env = globals,
      locals = Map.empty,
      stdout = [],
      ioCount = 0,
      hadRuntimeError = False,
      reported = []\<rparr>"

section \<open>Example inputs\<close>

text \<open>A host and a token constructor for the concrete runs below.\<close>

definition exampleHost :: Host where
  "exampleHost =
     \<lparr>hostBinary = (\<lambda>st t l r. VNil), hostNegate = (\<lambda>st v. VNil),
      numberToString = (\<lambda>w. ''0''), readLine = (\<lambda>k p. VString ''''),
      dateNow = (\<lambda>k. 0)\<rparr>"

definition token :: "TokenType \<Rightarrow> string \<Rightarrow> Token" where
  "token t s = \<lparr>type = t, lexeme = s, literal = VNil, line = 1, column = 0\<rparr>"

section \<open>What a run leaves unchanged\<close>

text \<open>
  \<open>frame st st'\<close>: the current environment, the diagnostic fields and the side table are
  the same in \<open>st'\<close> as in \<open>st\<close>, and every instance of \<open>st\<close> is an instance of the same
  class in \<open>st'\<close>. \<open>keeps st m\<close>: the computation \<open>m\<close>, started in \<open>st\<close>, ends in such a state
  whatever its outcome.
\<close>

definition frame :: "State \<Rightarrow> State \<Rightarrow> bool" where
  "frame st st' \<longleftrightarrow>
     env st' = env st \<and> hadRuntimeError st' = hadRuntimeError st \<and> reported st' = reported st
     \<and> locals st' = locals st \<and> nextInstance st \<le> nextInstance st'
     \<and> (\<forall>i<nextInstance st. klass (instances st' i) = klass (instances st i))"

definition keeps :: "State \<Rightarrow> 'a result \<Rightarrow> bool" where
  "keeps st m \<longleftrightarrow> (\<forall>r st'. m = Some (r, st') \<longrightarrow> frame st st')"

text \<open>
  A function whose \<^verbatim>\<open>return\<close> sits in a block in an \<^verbatim>\<open>if\<close> in a block in a
  \<^verbatim>\<open>while\<close>, and a top-level block that reads an undefined global after defining a
  local.
\<close>

definition returnDeep :: FunctionDecl where
  "returnDeep =
     FunctionDecl (token IDENTIFIER ''f'') []
       [WhileStmt (LiteralExpr (VBool True))
          (BlockStmt
             [IfStmt (LiteralExpr (VBool True))
                (BlockStmt [ReturnStmt (token RETURN ''return'') (Some (LiteralExpr (VString ''deep'')))])
                None])]"

definition failingBlock :: "Stmt list" where
  "failingBlock =
     [BlockStmt
        [VarStmt (token IDENTIFIER ''a'') (Some (LiteralExpr (VBool True))),
         ExpressionStmt (VariableExpr 1 (token IDENTIFIER ''b''))]]"

text \<open>
  The truthiness rule as the specification words it: nil and false are falsy, every other
  value is truthy.
\<close>

definition specTruthy :: "InternalValue \<Rightarrow> bool" where
  "specTruthy v = (v \<noteq> VNil \<and> v \<noteq> VBool False)"

text \<open>
  \<^verbatim>\<open>0 or "right"\<close> and \<^verbatim>\<open>!""\<close>; \<^verbatim>\<open>nil(x)\<close> with \<^verbatim>\<open>x\<close> undefined;
  \<^verbatim>\<open>class A { init() {} }\<close> and \<^verbatim>\<open>A().init()\<close>.
\<close>

definition zeroOrRight :: Expr where
  "zeroOrRight =
     LogicalExpr (LiteralExpr (VNumber 0)) (token OR ''or'') (LiteralExpr (VString ''right''))"

definition notEmptyString :: Expr where
  "notEmptyString = UnaryExpr (token BANG ''!'') (LiteralExpr (VString ''''))"

definition callNilWithUndefined :: Expr where
  "callNilWithUndefined =
     CallExpr (LiteralExpr VNil) (token RPAREN '')'') [VariableExpr 1 (token IDENTIFIER ''x'')]"

definition classWithInit :: Stmt where
  "classWithInit =
     ClassStmt (token IDENTIFIER ''A'') None [FunctionDecl (token IDENTIFIER ''init'') [] []]"

definition callBoundInit :: Expr where
  "callBoundInit =
     CallExpr
       (GetExpr (CallExpr (VariableExpr 1 (token IDENTIFIER ''A'')) (token RPAREN '')'') [])
          (token IDENTIFIER ''init''))
       (token RPAREN '')'') []"

section \<open>The resolver\<close>

datatype FunctionType =
  FunctionType_NONE | FunctionType_FUNCTION | FunctionType_METHOD | FunctionType_INITIALIZER

datatype ClassType = ClassType_NONE | ClassType_CLASS | ClassType_SUBCLASS

text \<open>
  The resolver object, with the two things it writes outside itself: the side table of the
  interpreter (through \<^verbatim>\<open>interpreter.resolve\<close>) and the errors it reports (through
  \<^verbatim>\<open>Lox.error\<close>, which also sets \<^verbatim>\<open>hadError\<close>). The innermost scope is the last
  of \<open>scopes\<close>.
\<close>

record Resolver =
  scopes :: "(string \<rightharpoonup> bool) list"
  currentFunction :: FunctionType
  currentClass :: ClassType
  interpreterLocals :: "nat \<rightharpoonup> nat"
  errors :: "(Token \<times> string) list"

definition newResolver :: "(nat \<rightharpoonup> nat) \<Rightarrow> Resolver" where
  "newResolver ls =
     \<lparr>scopes = [Map.empty], currentFunction = FunctionType_NONE, currentClass = ClassType_NONE,
      interpreterLocals = ls, errors = []\<rparr>"

definition Lox_error :: "Token \<Rightarrow> string \<Rightarrow> Resolver \<Rightarrow> Resolver" where
  "Lox_error t m rs = rs\<lparr>errors := errors rs @ [(t, m)]\<rparr>"

definition beginScope :: "Resolver \<Rightarrow> Resolver" where
  "beginScope rs = rs\<lparr>scopes := scopes rs @ [Map.empty]\<rparr>"

definition endScope :: "Resolver \<Rightarrow> Resolver" where
  "endScope rs = rs\<lparr>scopes := butlast (scopes rs)\<rparr>"

text \<open>\<^verbatim>\<open>this.scopes.at(-1).set(name, value)\<close>, when there is a scope.\<close>

definition setInnermost :: "string \<Rightarrow> bool \<Rightarrow> Resolver \<Rightarrow> Resolver" where
  "setInnermost n b rs =
     (if scopes rs = [] then rs
      else rs\<lparr>scopes := butlast (scopes rs) @ [(last (scopes rs))(n \<mapsto> b)]\<rparr>)"

definition Resolver_declare :: "Token \<Rightarrow> Resolver \<Rightarrow> Resolver" where
  "Resolver_declare n rs =
     (if scopes rs = [] then rs
      else setInnermost (lexeme n) False
             (if last (scopes rs) (lexeme n) \<noteq> None
              then Lox_error n ''Variable with this name already declared in this scope.'' rs
              else rs))"

definition Resolver_define :: "Token \<Rightarrow> Resolver \<Rightarrow> Resolver" where
  "Resolver_define n rs = setInnermost (lexeme n) True rs"

text \<open>
  \<^verbatim>\<open>resolveLocal\<close>: the loop from the innermost scope outwards; \<open>resolveLocalFrom k\<close>
  is the loop when \<open>k\<close> scopes, the outermost ones, are still to be looked at.
\<close>

primrec resolveLocalFrom :: "nat \<Rightarrow> nat \<Rightarrow> Token \<Rightarrow> Resolver \<Rightarrow> Resolver" where
  "resolveLocalFrom 0 expr n rs = rs"
| "resolveLocalFrom (Suc i) expr n rs =
     (if (scopes rs ! i) (lexeme n) \<noteq> None
      then rs\<lparr>interpreterLocals := (interpreterLocals rs)(expr \<mapsto> length (scopes rs) - i - 1)\<rparr>
      else resolveLocalFrom i expr n rs)"

definition resolveLocal :: "nat \<Rightarrow> Token \<Rightarrow> Resolver \<Rightarrow> Resolver" where
  "resolveLocal expr n rs = resolveLocalFrom (length (scopes rs)) expr n rs"

definition inOrder :: "('s \<Rightarrow> 's) list \<Rightarrow> 's \<Rightarrow> 's" where
  "inOrder fs s = fold (\<lambda>f x. f x) fs s"

primrec resolveExpr :: "Expr \<Rightarrow> Resolver \<Rightarrow> Resolver" where
  "resolveExpr (LiteralExpr v) rs = rs"
| "resolveExpr (GroupingExpr e) rs = resolveExpr e rs"
| "resolveExpr (UnaryExpr operator r) rs = resolveExpr r rs"
| "resolveExpr (BinaryExpr l operator r) rs = resolveExpr r (resolveExpr l rs)"
| "resolveExpr (AssignExpr expr n operator e) rs = resolveLocal expr n (resolveExpr e rs)"
| "resolveExpr (VariableExpr expr n) rs =
     resolveLocal expr n
       (if scopes rs \<noteq> [] \<and> last (scopes rs) (lexeme n) = Some False
        then Lox_error n ''Can't read local variable in its own initializer.'' rs
        else rs)"
| "resolveExpr (LogicalExpr l operator r) rs = resolveExpr r (resolveExpr l rs)"
| "resolveExpr (CallExpr callee paren arguments) rs =
     inOrder (map resolveExpr arguments) (resolveExpr callee rs)"
| "resolveExpr (GetExpr obj n) rs = resolveExpr obj rs"
| "resolveExpr (SetExpr obj n operator e) rs = resolveExpr obj (resolveExpr e rs)"
| "resolveExpr (ThisExpr expr keyword) rs =
     (if currentClass rs = ClassType_NONE
      then Lox_error keyword ''Cannot use 'this' outside of a class.'' rs
      else resolveLocal expr keyword rs)"
| "resolveExpr (SuperExpr expr keyword method) rs =
     resolveLocal expr keyword
       (if currentClass rs = ClassType_NONE
        then Lox_error keyword ''Cannot use 'super' outside of a class.'' rs
        else if currentClass rs = ClassType_CLASS
        then Lox_error keyword ''Cannot use 'super' in a class with no superclass.'' rs
        else rs)"

primrec resolveStmt :: "Stmt \<Rightarrow> Resolver \<Rightarrow> Resolver"
  and resolveFunction :: "FunctionDecl \<Rightarrow> FunctionType \<Rightarrow> Resolver \<Rightarrow> Resolver" where
  "resolveStmt (ExpressionStmt e) rs = resolveExpr e rs"
| "resolveStmt (VarStmt n initializer) rs =
     Resolver_define n
       ((case initializer of None \<Rightarrow> (\<lambda>x. x) | Some e \<Rightarrow> resolveExpr e) (Resolver_declare n rs))"
| "resolveStmt (BlockStmt statements) rs =
     endScope (inOrder (map resolveStmt statements) (beginScope rs))"
| "resolveStmt (IfStmt condition thenBranch elseBranch) rs =
     (case map_option resolveStmt elseBranch of None \<Rightarrow> (\<lambda>x. x) | Some f \<Rightarrow> f)
       (resolveStmt thenBranch (resolveExpr condition rs))"
| "resolveStmt (WhileStmt condition b) rs = resolveStmt b (resolveExpr condition rs)"
| "resolveStmt (FunctionStmt d) rs =
     resolveFunction d FunctionType_FUNCTION (Resolver_define (name d) (Resolver_declare (name d) rs))"
| "resolveStmt (ReturnStmt keyword e) rs =
     (let rs1 = (if currentFunction rs = FunctionType_NONE
                 then Lox_error keyword ''Cannot return from top-level code.'' rs
                 else rs)
      in case e of
           None \<Rightarrow> rs1
         | Some x \<Rightarrow>
             resolveExpr x
               (if currentFunction rs1 = FunctionType_INITIALIZER
                then Lox_error keyword ''Cannot return a InternalValue from an initializer.'' rs1
                else rs1))"
| "resolveStmt (ClassStmt n superclassExpr ms) rs =
     (let enclosingClass = currentClass rs;
          rs1 = Resolver_define n (Resolver_declare n (rs\<lparr>currentClass := ClassType_CLASS\<rparr>));
          rs2 = (case superclassExpr of
                   None \<Rightarrow> rs1
                 | Some (i, t) \<Rightarrow>
                     setInnermost ''super'' True
                       (beginScope
                          (resolveExpr (VariableExpr i t)
                             ((if lexeme n = lexeme t
                               then Lox_error t ''A class cannot inherit from itself.'' rs1
                               else rs1)\<lparr>currentClass := ClassType_SUBCLASS\<rparr>))));
          rs3 = setInnermost ''this'' True (beginScope rs2);
          rs4 = inOrder
                  (map (\<lambda>m. resolveFunction m
                               (if lexeme (name m) = ''init'' then FunctionType_INITIALIZER
                                else FunctionType_METHOD)) ms) rs3;
          rs5 = endScope rs4;
          rs6 = (if superclassExpr \<noteq> None then endScope rs5 else rs5)
      in rs6\<lparr>currentClass := enclosingClass\<rparr>)"
| "resolveFunction (FunctionDecl n ps b) ty rs =
     (let enclosingFunction = currentFunction rs;
          rs1 = beginScope (rs\<lparr>currentFunction := ty\<rparr>);
          rs2 = fold (\<lambda>param x. Resolver_define param (Resolver_declare param x)) ps rs1;
          rs3 = inOrder (map resolveStmt b) rs2
      in (endScope rs3)\<lparr>currentFunction := enclosingFunction\<rparr>)"

definition resolve :: "Stmt list \<Rightarrow> Resolver \<Rightarrow> Resolver" where
  "resolve statements rs = inOrder (map resolveStmt statements) rs"

section \<open>Names for the resolver's checks\<close>

text \<open>
  The keywords of the \<^verbatim>\<open>return\<close> statements with a value that belong to the function
  whose body holds the statement: those reached through blocks, \<^verbatim>\<open>if\<close> and
  \<^verbatim>\<open>while\<close>, not those of a function or class declared inside.
\<close>

primrec valueReturns :: "Stmt \<Rightarrow> Token list" where
  "valueReturns (ExpressionStmt e) = []"
| "valueReturns (VarStmt n initializer) = []"
| "valueReturns (BlockStmt statements) = concat (map valueReturns statements)"
| "valueReturns (IfStmt condition thenBranch elseBranch) =
     valueReturns thenBranch
       @ (case map_option valueReturns elseBranch of None \<Rightarrow> [] | Some ks \<Rightarrow> ks)"
| "valueReturns (WhileStmt condition b) = valueReturns b"
| "valueReturns (FunctionStmt d) = []"
| "valueReturns (ReturnStmt keyword e) = (case e of None \<Rightarrow> [] | Some x \<Rightarrow> [keyword])"
| "valueReturns (ClassStmt n superclassExpr ms) = []"

definition initializerReturnError :: "Token \<Rightarrow> Token \<times> string" where
  "initializerReturnError keyword = (keyword, ''Cannot return a InternalValue from an initializer.'')"

text \<open>
  \<open>rframe rs rs'\<close>: \<open>rs'\<close> has every error of \<open>rs\<close>, and the same current function and class
  kinds.
\<close>

definition rframe :: "Resolver \<Rightarrow> Resolver \<Rightarrow> bool" where
  "rframe rs rs' \<longleftrightarrow>
     set (errors rs) \<subseteq> set (errors rs') \<and> currentFunction rs' = currentFunction rs
     \<and> currentClass rs' = currentClass rs"

text \<open>
  \<^verbatim>\<open>class Box { init(v) { this.v = v; return; } }\<close>, the state after its declaration
  (resolved first), and a class whose \<^verbatim>\<open>init\<close> returns a value from inside a loop.
  \<^verbatim>\<open>{ var a = a += 1; }\<close>, the interpreter after its resolution, and the state in which
  the block's statements run.
\<close>

definition boxClass :: Stmt where
  "boxClass =
     ClassStmt (token IDENTIFIER ''Box'') None
       [FunctionDecl (token IDENTIFIER ''init'') [token IDENTIFIER ''v'']
          [ExpressionStmt
             (SetExpr (ThisExpr 1 (token THIS ''this'')) (token IDENTIFIER ''v'') None
                (VariableExpr 2 (token IDENTIFIER ''v''))),
           ReturnStmt (token RETURN ''return'') None]]"

definition returningInit :: Stmt where
  "returningInit =
     ClassStmt (token IDENTIFIER ''C'') None
       [FunctionDecl (token IDENTIFIER ''init'') []
          [WhileStmt (LiteralExpr (VBool True))
             (BlockStmt [ReturnStmt (token RETURN ''return'') (Some (LiteralExpr VNil))])]]"

definition boxState :: State where
  "boxState =
     (case visitStmt 2 exampleHost boxClass
             (newInterpreter\<lparr>locals := interpreterLocals (resolve [boxClass] (newResolver Map.empty))\<rparr>) of
        Some (r, st) \<Rightarrow> st
      | None \<Rightarrow> newInterpreter)"

definition ownInitializerAssign :: Expr where
  "ownInitializerAssign =
     AssignExpr 1 (token IDENTIFIER ''a'') (Some (token PLUS ''+=''))
       (LiteralExpr (VNumber 0x3FF0000000000000))"

definition ownInitializer :: "Stmt list" where
  "ownInitializer = [BlockStmt [VarStmt (token IDENTIFIER ''a'') (Some ownInitializerAssign)]]"

definition ownInitializerStart :: State where
  "ownInitializerStart =
     newInterpreter\<lparr>locals := interpreterLocals (resolve ownInitializer (newResolver Map.empty))\<rparr>"

definition ownInitializerEntry :: State where
  "ownInitializerEntry =
     (let (e, st1) = newEnvironment (Some (env ownInitializerStart)) ownInitializerStart
      in st1\<lparr>env := e\<rparr>)"

section \<open>The parser\<close>

text \<open>
  The parser object, with the errors it reports through \<^verbatim>\<open>Lox.error\<close> and the number
  of nodes with an identity it has created (the identity of the next one). An exception is
  a \<^verbatim>\<open>ParseError\<close>, or the host's \<^verbatim>\<open>TypeError\<close> for a read of a field of the
  token past the end of the array.
\<close>

record Parser =
  tokens :: "Token list"
  current :: nat
  diagnostics :: "(Token \<times> string) list"
  nextNode :: nat

datatype ParseExc = ParseError | ParserTypeError

type_synonym 'a presult = "((ParseExc + 'a) \<times> Parser) option"

definition ret :: "'a \<Rightarrow> 's \<Rightarrow> (('e + 'a) \<times> 's) option" where
  "ret v s = Some (Inr v, s)"

definition peek :: "Parser \<Rightarrow> Token presult" where
  "peek ps =
     (if current ps < length (tokens ps) then ret (tokens ps ! current ps) ps
      else Some (Inl ParserTypeError, ps))"

text \<open>
  \<^verbatim>\<open>previous\<close> is only read after an \<^verbatim>\<open>advance\<close> that moved: it is the token that
  was just consumed.
\<close>

definition previous :: "Parser \<Rightarrow> Token" where
  "previous ps = tokens ps ! (current ps - 1)"

definition atEnd :: "Parser \<Rightarrow> bool presult" where
  "atEnd ps = andThen (peek ps) (\<lambda>t. ret (type t = EOF))"

definition advance :: "Parser \<Rightarrow> Token presult" where
  "advance ps =
     andThen (atEnd ps) (\<lambda>e ps1.
       let ps2 = (if \<not> e then ps1\<lparr>current := current ps1 + 1\<rparr> else ps1)
       in ret (previous ps2) ps2)"

definition check :: "TokenType \<Rightarrow> Parser \<Rightarrow> bool presult" where
  "check ty ps =
     andThen (atEnd ps) (\<lambda>e ps1.
       if e then ret False ps1 else andThen (peek ps1) (\<lambda>t. ret (type t = ty)))"

primrec matchTypes :: "TokenType list \<Rightarrow> Parser \<Rightarrow> bool presult" where
  "matchTypes [] ps = ret False ps"
| "matchTypes (ty # tys) ps =
     andThen (check ty ps) (\<lambda>c ps1.
       if c then andThen (advance ps1) (\<lambda>t. ret True) else matchTypes tys ps1)"

definition matchAssign :: "Parser \<Rightarrow> bool presult" where
  "matchAssign = matchTypes [PLUS_EQ, MINUS_EQ, SLASH_EQ, STAR_EQ, PERCENT_EQ, EQ]"

definition assignToBinaryOperator :: "TokenType \<Rightarrow> TokenType option" where
  "assignToBinaryOperator ty =
     (if ty = PLUS_EQ then Some PLUS
      else if ty = MINUS_EQ then Some MINUS
      else if ty = SLASH_EQ then Some SLASH
      else if ty = STAR_EQ then Some STAR
      else if ty = PERCENT_EQ then Some PERCENT
      else None)"

text \<open>\<^verbatim>\<open>Parser.error\<close> reports; the caller throws the \<^verbatim>\<open>ParseError\<close> it returns, or not.\<close>

definition Parser_error :: "Token \<Rightarrow> string \<Rightarrow> Parser \<Rightarrow> Parser" where
  "Parser_error t m ps = ps\<lparr>diagnostics := diagnostics ps @ [(t, m)]\<rparr>"

definition throwError :: "string \<Rightarrow> Parser \<Rightarrow> 'a presult" where
  "throwError m ps = andThen (peek ps) (\<lambda>t ps1. Some (Inl ParseError, Parser_error t m ps1))"

definition consume :: "TokenType \<Rightarrow> string \<Rightarrow> Parser \<Rightarrow> Token presult" where
  "consume ty m ps =
     andThen (check ty ps) (\<lambda>c ps1. if c then advance ps1 else throwError m ps1)"

definition newNode :: "Parser \<Rightarrow> nat \<times> Parser" where
  "newNode ps = (nextNode ps, ps\<lparr>nextNode := Suc (nextNode ps)\<rparr>)"

text \<open>
  The methods of the expression grammar, which call each other; the loops of the binary
  levels, of \<^verbatim>\<open>call\<close> and of the argument list of \<^verbatim>\<open>finishCall\<close> carry what they
  have built so far. Every call of one method to another, and every turn of a loop, spends
  one unit of fuel.
\<close>

datatype ExprTask =
    ParseExpression
  | ParseAssignment
  | ParseOr | OrLoop Expr
  | ParseAnd | AndLoop Expr
  | ParseEquality | EqualityLoop Expr
  | ParseComparison | ComparisonLoop Expr
  | ParseTerm | TermLoop Expr
  | ParseFactor | FactorLoop Expr
  | ParseUnary
  | ParseCall | CallLoop Expr
  | FinishCall Expr | ArgumentsLoop Expr "Expr list" | FinishArguments Expr "Expr list"
  | ParsePrimary

primrec parseExpr :: "nat \<Rightarrow> ExprTask \<Rightarrow> Parser \<Rightarrow> Expr presult" where
  "parseExpr 0 task ps = None"
| "parseExpr (Suc n) task ps =
    (let expression = parseExpr n ParseExpression;
         assignment = parseExpr n ParseAssignment;
         or = parseExpr n ParseOr;
         and = parseExpr n ParseAnd;
         equality = parseExpr n ParseEquality;
         comparison = parseExpr n ParseComparison;
         term = parseExpr n ParseTerm;
         factor = parseExpr n ParseFactor;
         unary = parseExpr n ParseUnary;
         call = parseExpr n ParseCall;
         finishCall = (\<lambda>callee. parseExpr n (FinishCall callee));
         primary = parseExpr n ParsePrimary
     in
     case task of
       ParseExpression \<Rightarrow> assignment ps
     | ParseAssignment \<Rightarrow>
         andThen (or ps) (\<lambda>expr ps1.
         andThen (matchAssign ps1) (\<lambda>m ps2.
           if m then
             (let equals = previous ps2
              in andThen (assignment ps2) (\<lambda>v ps3.
                   case expr of
                     VariableExpr i nm \<Rightarrow>
                       (let (j, ps4) = newNode ps3
                        in ret (AssignExpr j nm
                                  (map_option (\<lambda>ty. equals\<lparr>type := ty\<rparr>)
                                     (assignToBinaryOperator (type equals))) v) ps4)
                   | GetExpr obj nm \<Rightarrow>
                       ret (SetExpr obj nm
                              (map_option (\<lambda>ty. equals\<lparr>type := ty\<rparr>)
                                 (assignToBinaryOperator (type equals))) v) ps3
                   | _ \<Rightarrow> ret expr (Parser_error equals ''Invalid assignment target.'' ps3)))
           else ret expr ps2))
     | ParseOr \<Rightarrow> andThen (and ps) (\<lambda>left. parseExpr n (OrLoop left))
     | OrLoop left \<Rightarrow>
         andThen (matchTypes [OR] ps) (\<lambda>m ps1.
           if m then
             (let operator = previous ps1
              in andThen (and ps1) (\<lambda>right.
                   parseExpr n (OrLoop (LogicalExpr left operator right))))
           else ret left ps1)
     | ParseAnd \<Rightarrow> andThen (equality ps) (\<lambda>left. parseExpr n (AndLoop left))
     | AndLoop left \<Rightarrow>
         andThen (matchTypes [AND] ps) (\<lambda>m ps1.
           if m then
             (let operator = previous ps1
              in andThen (equality ps1) (\<lambda>right.
                   parseExpr n (AndLoop (LogicalExpr left operator right))))
           else ret left ps1)
     | ParseEquality \<Rightarrow> andThen (comparison ps) (\<lambda>left. parseExpr n (EqualityLoop left))
     | EqualityLoop left \<Rightarrow>
         andThen (matchTypes [BANG_EQ, EQ_EQ] ps) (\<lambda>m ps1.
           if m then
             (let operator = previous ps1
              in andThen (comparison ps1) (\<lambda>right.
                   parseExpr n (EqualityLoop (BinaryExpr left operator right))))
           else ret left ps1)
     | ParseComparison \<Rightarrow> andThen (term ps) (\<lambda>left. parseExpr n (ComparisonLoop left))
     | ComparisonLoop left \<Rightarrow>
         andThen (matchTypes [LT, GT, LT_EQ, GT_EQ] ps) (\<lambda>m ps1.
           if m then
             (let operator = previous ps1
              in andThen (term ps1) (\<lambda>right.
                   parseExpr n (ComparisonLoop (BinaryExpr left operator right))))
           else ret left ps1)
     | ParseTerm \<Rightarrow> andThen (factor ps) (\<lambda>left. parseExpr n (TermLoop left))
     | TermLoop left \<Rightarrow>
         andThen (matchTypes [MINUS, PLUS] ps) (\<lambda>m ps1.
           if m then
             (let operator = previous ps1
              in andThen (factor ps1) (\<lambda>right.
                   parseExpr n (TermLoop (BinaryExpr left operator right))))
           else ret left ps1)
     | ParseFactor \<Rightarrow> andThen (unary ps) (\<lambda>left. parseExpr n (FactorLoop left))
     | FactorLoop left \<Rightarrow>
         andThen (matchTypes [SLASH, STAR, PERCENT] ps) (\<lambda>m ps1.
           if m then
             (let operator = previous ps1
              in andThen (unary ps1) (\<lambda>right.
                   parseExpr n (FactorLoop (BinaryExpr left operator right))))
           else ret left ps1)
     | ParseUnary \<Rightarrow>
         andThen (matchTypes [BANG, MINUS] ps) (\<lambda>m ps1.
           if m then
             (let operator = previous ps1
              in andThen (unary ps1) (\<lambda>right. ret (UnaryExpr operator right)))
           else call ps1)
     | ParseCall \<Rightarrow> andThen (primary ps) (\<lambda>expr. parseExpr n (CallLoop expr))
     | CallLoop expr \<Rightarrow>
         andThen (matchTypes [LPAREN] ps) (\<lambda>m ps1.
           if m then andThen (finishCall expr ps1) (\<lambda>e. parseExpr n (CallLoop e))
           else
             andThen (matchTypes [DOT] ps1) (\<lambda>d ps2.
               if d then
                 andThen (consume IDENTIFIER ''Expected property name after '.'.'' ps2)
                   (\<lambda>nm. parseExpr n (CallLoop (GetExpr expr nm)))
               else ret expr ps2))
     | FinishCall callee \<Rightarrow>
         andThen (check RPAREN ps) (\<lambda>c ps1.
           if \<not> c then parseExpr n (ArgumentsLoop callee []) ps1
           else parseExpr n (FinishArguments callee []) ps1)
     | ArgumentsLoop callee args \<Rightarrow>
         andThen
           (if length args \<ge> 255
            then andThen (peek ps) (\<lambda>t ps1.
                   ret () (Parser_error t ''Cannot have more than 255 arguments.'' ps1))
            else ret () ps)
           (\<lambda>u ps2.
              andThen (expression ps2) (\<lambda>e ps3.
              andThen (matchTypes [COMMA] ps3) (\<lambda>m ps4.
                if m then parseExpr n (ArgumentsLoop callee (args @ [e])) ps4
                else parseExpr n (FinishArguments callee (args @ [e])) ps4)))
     | FinishArguments callee args \<Rightarrow>
         andThen (consume RPAREN ''Expected ')' after arguments.'' ps) (\<lambda>paren.
           ret (CallExpr callee paren args))
     | ParsePrimary \<Rightarrow>
         andThen (matchTypes [FALSE] ps) (\<lambda>m ps1.
         if m then ret (LiteralExpr (VBool False)) ps1 else
         andThen (matchTypes [TRUE] ps1) (\<lambda>m ps2.
         if m then ret (LiteralExpr (VBool True)) ps2 else
         andThen (matchTypes [NIL] ps2) (\<lambda>m ps3.
         if m then ret (LiteralExpr VNil) ps3 else
         andThen (matchTypes [NUMBER, STRING] ps3) (\<lambda>m ps4.
         if m then ret (LiteralExpr (literal (previous ps4))) ps4 else
         andThen (matchTypes [SUPER] ps4) (\<lambda>m ps5.
         if m then
           (let keyword = previous ps5
            in andThen (consume DOT ''Expected '.' after 'super'.'' ps5) (\<lambda>d ps6.
               andThen (consume IDENTIFIER ''Expected superclass method name.'' ps6)
                 (\<lambda>method ps7.
                    let (i, ps8) = newNode ps7 in ret (SuperExpr i keyword method) ps8)))
         else
         andThen (matchTypes [THIS] ps5) (\<lambda>m ps6.
         if m then (let (i, ps7) = newNode ps6 in ret (ThisExpr i (previous ps6)) ps7) else
         andThen (matchTypes [IDENTIFIER] ps6) (\<lambda>m ps7.
         if m then (let (i, ps8) = newNode ps7 in ret (VariableExpr i (previous ps7)) ps8) else
         andThen (matchTypes [LPAREN] ps7) (\<lambda>m ps8.
         if m then
           andThen (expression ps8) (\<lambda>expr ps9.
           andThen (consume RPAREN ''Expected ')' after expression.'' ps9) (\<lambda>p.
             ret (GroupingExpr expr)))
         else throwError ''Expected expression.'' ps8)))))))))"

definition expression :: "nat \<Rightarrow> Parser \<Rightarrow> Expr presult" where
  "expression n = parseExpr n ParseExpression"

definition finishCall :: "nat \<Rightarrow> Expr \<Rightarrow> Parser \<Rightarrow> Expr presult" where
  "finishCall n callee = parseExpr n (FinishCall callee)"

text \<open>
  The loop over the parameters in \<^verbatim>\<open>Parser.function\<close>, with the parameters it has
  consumed so far; and \<^verbatim>\<open>function\<close> up to the opening brace of the body.
\<close>

primrec parametersLoop :: "nat \<Rightarrow> Token list \<Rightarrow> Parser \<Rightarrow> Token list presult" where
  "parametersLoop 0 ps0 ps = None"
| "parametersLoop (Suc n) ps0 ps =
     andThen
       (if length ps0 \<ge> 255
        then andThen (peek ps) (\<lambda>t ps1.
               ret () (Parser_error t ''Cannot have more than 255 parameters.'' ps1))
        else ret () ps)
       (\<lambda>u ps2.
          andThen (consume IDENTIFIER ''Expected parameter name.'' ps2) (\<lambda>p ps3.
          andThen (matchTypes [COMMA] ps3) (\<lambda>m ps4.
            if m then parametersLoop n (ps0 @ [p]) ps4 else ret (ps0 @ [p]) ps4)))"

definition functionHead :: "nat \<Rightarrow> string \<Rightarrow> Parser \<Rightarrow> (Token \<times> Token list) presult" where
  "functionHead n kind ps =
     andThen (consume IDENTIFIER (''Expected '' @ kind @ '' name.'') ps) (\<lambda>nm ps1.
     andThen (consume LPAREN (''Expected '(' after '' @ kind @ '' name.'') ps1) (\<lambda>l ps2.
     andThen (check RPAREN ps2) (\<lambda>c ps3.
     andThen (if \<not> c then parametersLoop n [] ps3 else ret [] ps3) (\<lambda>parameters ps4.
     andThen (consume RPAREN ''Expected ')' after parameters.'' ps4) (\<lambda>r ps5.
     andThen (consume LBRACE (''Expected '{' before '' @ kind @ '' body.'') ps5) (\<lambda>b.
       ret (nm, parameters)))))))"

text \<open>
  The constructor of the parser. A list of entries separated by commas, as the token
  sequence of an argument or parameter list; the diagnostics of the two limits; and the
  tokens of \<open>n\<close> number arguments, or \<open>n\<close> parameters, up to the end of the input.
\<close>

definition newParser :: "Token list \<Rightarrow> Parser" where
  "newParser ts = \<lparr>tokens = ts, current = 0, diagnostics = [], nextNode = 0\<rparr>"

fun separated :: "Token \<Rightarrow> Token list \<Rightarrow> Token list" where
  "separated c [] = []"
| "separated c [x] = [x]"
| "separated c (x # y # ys) = x # c # separated c (y # ys)"

definition tooManyArguments :: "Token \<Rightarrow> Token \<times> string" where
  "tooManyArguments t = (t, ''Cannot have more than 255 arguments.'')"

definition tooManyParameters :: "Token \<Rightarrow> Token \<times> string" where
  "tooManyParameters t = (t, ''Cannot have more than 255 parameters.'')"

definition numberToken :: Token where
  "numberToken = \<lparr>type = NUMBER, lexeme = ''0'', literal = VNumber 0, line = 1, column = 0\<rparr>"

definition manyArguments :: "nat \<Rightarrow> Token list" where
  "manyArguments n =
     separated (token COMMA '','') (replicate n numberToken) @ [token RPAREN '')'', token EOF []]"

definition manyParameters :: "nat \<Rightarrow> Token list" where
  "manyParameters n =
     separated (token COMMA '','') (replicate n (token IDENTIFIER ''p''))
       @ [token RPAREN '')'', token EOF []]"

section \<open>The evaluator, method by method\<close>

lemmas evaluator_defs =
  visitExpr_def visitStmt_def whileLoop_def call_def LoxFunction_call_def
  visitArgs_def executeStmts_def executeBlock_def

lemma visitExpr_0: "visitExpr 0 h e st = None"
  unfolding evaluator_defs by simp

lemma visitStmt_0: "visitStmt 0 h s st = None"
  unfolding evaluator_defs by simp

lemma whileLoop_0: "whileLoop 0 h c b st = None"
  unfolding evaluator_defs by simp

lemma call_0: "call 0 h callee args st = None"
  unfolding evaluator_defs by simp

lemma LoxFunction_call_0: "LoxFunction_call 0 h f args st = None"
  unfolding evaluator_defs by simp

lemma visitLiteralExpr: "visitExpr (Suc n) h (LiteralExpr v) st = Some (Inr v, st)"
  unfolding evaluator_defs by simp

lemma visitGroupingExpr: "visitExpr (Suc n) h (GroupingExpr e) st = visitExpr n h e st"
  unfolding evaluator_defs by simp

lemma visitUnaryExpr:
  "visitExpr (Suc n) h (UnaryExpr operator r) st =
     andThen (visitExpr n h r st) (\<lambda>right st1.
       if type operator = MINUS then
         (if right = VNil
          then Some (Inl (RuntimeError operator ''Unary minus on nil is not supported.''), st1)
          else Some (Inr (hostNegate h st1 right), st1))
       else if type operator = BANG then Some (Inr (VBool (\<not> truthy right)), st1)
       else Some (Inr VNil, st1))"
  unfolding evaluator_defs by simp

lemma visitBinaryExpr:
  "visitExpr (Suc n) h (BinaryExpr l operator r) st =
     andThen (visitExpr n h l st) (\<lambda>left st1.
     andThen (visitExpr n h r st1) (\<lambda>right st2.
       Some (Inr (binaryOp h st2 operator left right), st2)))"
  unfolding evaluator_defs by simp

lemma visitAssignExpr:
  "visitExpr (Suc n) h (AssignExpr expr nm operator e) st =
     andThen (visitExpr n h e st) (\<lambda>v st1.
     andThen
       (case operator of
          None \<Rightarrow> Some (Inr v, st1)
        | Some opr \<Rightarrow>
            andThen (lookUpVariable n st1 nm expr) (\<lambda>current st2.
              Some (Inr (binaryOp h st2 opr current v), st2)))
       (\<lambda>v' st3.
          case locals st3 expr of
            Some distance \<Rightarrow>
              Some (Inr v', st3\<lparr>envs := assignAt (envs st3) (env st3) distance nm v'\<rparr>)
          | None \<Rightarrow>
              (case Environment_assign n (envs st3) globals nm v' of
                 None \<Rightarrow> None
               | Some (Inl x) \<Rightarrow> Some (Inl x, st3)
               | Some (Inr es) \<Rightarrow> Some (Inr v', st3\<lparr>envs := es\<rparr>))))"
  unfolding evaluator_defs by simp

lemma visitVariableExpr:
  "visitExpr (Suc n) h (VariableExpr expr nm) st = lookUpVariable n st nm expr"
  unfolding evaluator_defs by simp

lemma visitLogicalExpr:
  "visitExpr (Suc n) h (LogicalExpr l operator r) st =
     andThen (visitExpr n h l st) (\<lambda>left st1.
       if type operator = OR then
         (if truthy left then Some (Inr left, st1) else visitExpr n h r st1)
       else
         (if \<not> truthy left then Some (Inr left, st1) else visitExpr n h r st1))"
  unfolding evaluator_defs by simp

lemma visitCallExpr:
  "visitExpr (Suc n) h (CallExpr calleeExpr paren arguments) st =
     andThen (visitExpr n h calleeExpr st) (\<lambda>callee st1.
     andThen (visitArgs n h arguments st1) (\<lambda>args st2.
       if \<not> isCallable callee
       then Some (Inl (RuntimeError paren ''Can only call functions and classes.''), st2)
       else if length args \<noteq> arity st2 callee
       then Some (Inl (RuntimeError paren
              (''Expected '' @ showNat (arity st2 callee) @ '' arguments but got ''
                 @ showNat (length args) @ ''.'')), st2)
       else call n h callee args st2))"
  unfolding evaluator_defs by simp

lemma visitGetExpr:
  "visitExpr (Suc n) h (GetExpr obj nm) st =
     andThen (visitExpr n h obj st) (\<lambda>object st1.
       case object of
         VInstance i \<Rightarrow> Some (LoxInstance_get i nm st1)
       | _ \<Rightarrow> Some (Inl (RuntimeError nm ''Only instances have properties.''), st1))"
  unfolding evaluator_defs by simp

lemma visitSetExpr:
  "visitExpr (Suc n) h (SetExpr obj nm operator e) st =
     andThen (visitExpr n h obj st) (\<lambda>object st1.
       case object of
         VInstance i \<Rightarrow>
           andThen (visitExpr n h e st1) (\<lambda>v st2.
           andThen
             (case operator of
                None \<Rightarrow> Some (Inr v, st2)
              | Some opr \<Rightarrow>
                  andThen (Some (LoxInstance_get i nm st2)) (\<lambda>current st3.
                    Some (Inr (binaryOp h st3 opr current v), st3)))
             (\<lambda>v' st4. Some (Inr v', LoxInstance_set i nm v' st4)))
       | _ \<Rightarrow> Some (Inl (RuntimeError nm ''Only instances have properties.''), st1))"
  unfolding evaluator_defs by simp

lemma visitThisExpr:
  "visitExpr (Suc n) h (ThisExpr expr keyword) st = lookUpVariable n st keyword expr"
  unfolding evaluator_defs by simp

lemma visitSuperExpr:
  "visitExpr (Suc n) h (SuperExpr expr keyword method) st =
     (let distance = (case locals st expr of Some d \<Rightarrow> d | None \<Rightarrow> 0);
          sc = getAt (envs st) (env st) distance ''super'';
          object = getAt (envs st) (env st) (distance - 1) ''this''
      in case sc of
           VClass c \<Rightarrow>
             (case findMethod (classes st c) (lexeme method) of
                None \<Rightarrow>
                  Some (Inl (RuntimeError method (undefinedProperty method @ ''.'')), st)
              | Some m \<Rightarrow>
                  (let (f, st1) = LoxFunction_bind m object st;
                       (a, st2) = allocCallable (Function f) st1
                   in Some (Inr (VCallable a), st2)))
         | _ \<Rightarrow> Some (Inl TypeError, st))"
  unfolding evaluator_defs by simp

lemma visitArgs_Nil: "visitArgs n h [] st = Some (Inr [], st)"
  unfolding evaluator_defs by simp

lemma visitArgs_Cons:
  "visitArgs n h (e # es) st =
     andThen (visitExpr n h e st) (\<lambda>v st1.
     andThen (visitArgs n h es st1) (\<lambda>vs st2. Some (Inr (v # vs), st2)))"
  unfolding evaluator_defs by simp

lemma visitExpressionStmt:
  "visitStmt (Suc n) h (ExpressionStmt e) st =
     andThen (visitExpr n h e st) (\<lambda>v st1. Some (Inr VNil, st1))"
  unfolding evaluator_defs by simp

lemma visitVarStmt:
  "visitStmt (Suc n) h (VarStmt nm initializer) st =
     andThen
       (case initializer of None \<Rightarrow> Some (Inr VNil, st) | Some e \<Rightarrow> visitExpr n h e st)
       (\<lambda>v st1. Some (Inr VNil, Environment_define (env st1) (lexeme nm) v st1))"
  unfolding evaluator_defs by simp

lemma visitBlockStmt:
  "visitStmt (Suc n) h (BlockStmt statements) st =
     (let (e, st1) = newEnvironment (Some (env st)) st
      in executeBlock n h statements e st1)"
  unfolding evaluator_defs by simp

lemma visitIfStmt:
  "visitStmt (Suc n) h (IfStmt condition thenBranch elseBranch) st =
     andThen (visitExpr n h condition st) (\<lambda>c st1.
       if truthy c then andThen (visitStmt n h thenBranch st1) (\<lambda>v st2. Some (Inr VNil, st2))
       else
         (case elseBranch of
            Some s \<Rightarrow> andThen (visitStmt n h s st1) (\<lambda>v st2. Some (Inr VNil, st2))
          | None \<Rightarrow> Some (Inr VNil, st1)))"
  unfolding evaluator_defs by simp

lemma visitWhileStmt:
  "visitStmt (Suc n) h (WhileStmt condition b) st = whileLoop n h condition b st"
  unfolding evaluator_defs by simp

lemma whileLoop_Suc:
  "whileLoop (Suc n) h c b st =
     andThen (visitExpr n h c st) (\<lambda>v st1.
       if truthy v then andThen (visitStmt n h b st1) (\<lambda>u st2. whileLoop n h c b st2)
       else Some (Inr VNil, st1))"
  unfolding evaluator_defs by simp

lemma visitFunctionStmt:
  "visitStmt (Suc n) h (FunctionStmt d) st =
     (let (a, st1) = allocCallable (Function \<lparr>decl = d, closure = env st, isInitializer = False\<rparr>) st
      in Some (Inr VNil, Environment_define (env st1) (lexeme (name d)) (VCallable a) st1))"
  unfolding evaluator_defs by simp

lemma visitReturnStmt:
  "visitStmt (Suc n) h (ReturnStmt keyword e) st =
     andThen (case e of None \<Rightarrow> Some (Inr VNil, st) | Some x \<Rightarrow> visitExpr n h x st)
       (\<lambda>v st1. Some (Inl (Return v), st1))"
  unfolding evaluator_defs by simp

lemma visitClassStmt:
  "visitStmt (Suc n) h (ClassStmt nm superclassExpr ms) st =
     andThen
       (case superclassExpr of
          None \<Rightarrow> Some (Inr VNil, st)
        | Some (i, t) \<Rightarrow> visitExpr n h (VariableExpr i t) st)
       (\<lambda>sc st1.
          if truthy sc \<and> (case sc of VClass c \<Rightarrow> False | _ \<Rightarrow> True)
          then Some (Inl (RuntimeError (case superclassExpr of Some (i, t) \<Rightarrow> t | None \<Rightarrow> nm)
                            ''Superclass must be a class.''), st1)
          else
            (let st2 = Environment_define (env st1) (lexeme nm) VNil st1;
                 st3 = (if superclassExpr \<noteq> None
                        then (let (e, s) = newEnvironment (Some (env st2)) st2
                              in Environment_define e ''super'' sc (s\<lparr>env := e\<rparr>))
                        else st2);
                 methodMap = fold (\<lambda>m acc. acc(lexeme (name m) \<mapsto>
                                 \<lparr>decl = m, closure = env st3, isInitializer = False\<rparr>))
                               ms Map.empty;
                 (c, st4) = allocClass
                              (LoxClass (lexeme nm)
                                 (case sc of VClass k \<Rightarrow> Some (classes st3 k) | _ \<Rightarrow> None)
                                 methodMap) st3
             in if superclassExpr \<noteq> None \<and> enclosing (envs st4 (env st4)) = None
                then Some (Inl TypeError, st4)
                else
                  (let st5 = (if superclassExpr \<noteq> None
                              then st4\<lparr>env := (case enclosing (envs st4 (env st4)) of
                                                 Some p \<Rightarrow> p | None \<Rightarrow> env st4)\<rparr>
                              else st4)
                   in case Environment_assign n (envs st5) (env st5) nm (VClass c) of
                        None \<Rightarrow> None
                      | Some (Inl x) \<Rightarrow> Some (Inl x, st5)
                      | Some (Inr es) \<Rightarrow> Some (Inr VNil, st5\<lparr>envs := es\<rparr>))))"
  unfolding evaluator_defs by simp

lemma executeStmts_Nil: "executeStmts n h [] st = Some (Inr VNil, st)"
  unfolding evaluator_defs by simp

lemma executeStmts_Cons:
  "executeStmts n h (s # ss) st =
     andThen (visitStmt n h s st) (\<lambda>v st1. executeStmts n h ss st1)"
  unfolding evaluator_defs by simp

lemma executeBlock_eq:
  "executeBlock n h statements e st =
     (let previous = env st
      in case executeStmts n h statements (st\<lparr>env := e\<rparr>) of
           None \<Rightarrow> None
         | Some (r, st1) \<Rightarrow> Some (r, st1\<lparr>env := previous\<rparr>))"
  unfolding evaluator_defs executeBlockWith_def by simp

lemma call_callable:
  "call (Suc n) h (VCallable a) args st =
     (case callables st a of
        NativeFn k \<Rightarrow> (let (v, st1) = callNative h k args st in Some (Inr v, st1))
      | Function f \<Rightarrow> LoxFunction_call n h f args st)"
  unfolding evaluator_defs by simp

lemma call_class:
  "call (Suc n) h (VClass c) args st =
     (let (i, st1) = allocInstance \<lparr>klass = c, inst_fields = Map.empty\<rparr> st
      in case findMethod (classes st1 c) ''init'' of
           None \<Rightarrow> Some (Inr (VInstance i), st1)
         | Some initializer \<Rightarrow>
             (let (f, st2) = LoxFunction_bind initializer (VInstance i) st1
              in andThen (LoxFunction_call n h f args st2)
                   (\<lambda>v st3. Some (Inr (VInstance i), st3))))"
  unfolding evaluator_defs by simp

lemma call_other:
  "\<not> isCallable callee \<Longrightarrow> call (Suc n) h callee args st = Some (Inl TypeError, st)"
  unfolding evaluator_defs by (cases callee) simp_all

lemma LoxFunction_call_Suc:
  "LoxFunction_call (Suc n) h f args st =
     (let (environment, st1) = newEnvironment (Some (closure f)) st;
          st2 = defineParams environment (params (decl f)) args st1
      in case executeBlock n h (body (decl f)) environment st2 of
           None \<Rightarrow> None
         | Some (Inl (Return v), st3) \<Rightarrow>
             if isInitializer f then Some (Inr (getAt (envs st3) (closure f) 0 ''this''), st3)
             else Some (Inr v, st3)
         | Some (Inl x, st3) \<Rightarrow> Some (Inl x, st3)
         | Some (Inr u, st3) \<Rightarrow>
             if \<not> isInitializer f then Some (Inr VNil, st3)
             else Some (Inr (getAt (envs st3) (closure f) 0 ''this''), st3))"
  unfolding evaluator_defs by simp

section \<open>Reads of annotated nodes\<close>

lemma Environment_get_error:
  "Environment_get k es a n = Some (Inl x) \<Longrightarrow> x = undefinedVariable n"
  by (induction k arbitrary: a) (auto split: option.splits)

text \<open>
  C9. A node that carries a depth annotation is read with \<^verbatim>\<open>getAt\<close>: the read never
  raises, and yields nil when the chain is shorter than the depth or the environment
  reached lacks the name. When the read of a variable node raises, the node is not
  annotated and the error is the "Undefined variable" error of the global lookup.
\<close>

theorem annotated_read_never_undefined:
  "(\<forall>d. locals st expr = Some d \<longrightarrow>
      lookUpVariable k st nm expr = Some (Inr (getAt (envs st) (env st) d (lexeme nm)), st)
    \<and> visitExpr (Suc k) h (VariableExpr expr nm) st
        = Some (Inr (getAt (envs st) (env st) d (lexeme nm)), st)
    \<and> visitExpr (Suc k) h (ThisExpr expr nm) st
        = Some (Inr (getAt (envs st) (env st) d (lexeme nm)), st)
    \<and> (ancestor (envs st) (Some (env st)) d = None
         \<longrightarrow> getAt (envs st) (env st) d (lexeme nm) = VNil)
    \<and> (\<forall>b. ancestor (envs st) (Some (env st)) d = Some b \<and> vals (envs st b) (lexeme nm) = None
         \<longrightarrow> getAt (envs st) (env st) d (lexeme nm) = VNil))
   \<and> (\<forall>x st'. visitExpr (Suc k) h (VariableExpr expr nm) st = Some (Inl x, st')
         \<longrightarrow> locals st expr = None \<and> x = undefinedVariable nm)"
  by (auto simp: visitVariableExpr visitThisExpr lookUpVariable_def getAt_def
           split: option.splits dest: Environment_get_error)

theorem annotated_read_never_undefined_witness:
  "visitExpr 1 exampleHost (VariableExpr 5 (token IDENTIFIER ''x''))
       (newInterpreter\<lparr>locals := [5 \<mapsto> 3]\<rparr>)
     = Some (Inr VNil, newInterpreter\<lparr>locals := [5 \<mapsto> 3]\<rparr>)
   \<and> visitExpr 2 exampleHost (VariableExpr 6 (token IDENTIFIER ''x'')) newInterpreter
     = Some (Inl (undefinedVariable (token IDENTIFIER ''x'')), newInterpreter)"
  using annotated_read_never_undefined
    [of "newInterpreter\<lparr>locals := [5 \<mapsto> 3]\<rparr>" 5 0 "token IDENTIFIER ''x''" exampleHost]
  by (simp add: newInterpreter_def globals_def getAt_def token_def visitVariableExpr
        lookUpVariable_def eval_nat_numeral)

section \<open>Every method of the evaluator keeps the frame\<close>

lemma frame_refl [simp]: "frame st st"
  by (simp add: frame_def)

lemma frame_trans: "frame a b \<Longrightarrow> frame b c \<Longrightarrow> frame a c"
  by (auto simp: frame_def)

lemma keeps_None [simp]: "keeps st None"
  by (simp add: keeps_def)

lemma keeps_Some [simp]: "keeps st (Some (r, st')) \<longleftrightarrow> frame st st'"
  by (simp add: keeps_def)

lemma keeps_from: "frame st0 st \<Longrightarrow> keeps st m \<Longrightarrow> keeps st0 m"
  by (auto simp: keeps_def intro: frame_trans)

lemma keeps_andThen:
  "keeps st m \<Longrightarrow> (\<And>v st1. frame st st1 \<Longrightarrow> keeps st1 (f v st1)) \<Longrightarrow> keeps st (andThen m f)"
  by (auto simp: keeps_def andThen_def split: option.splits sum.splits intro: frame_trans)

lemma frame_define [simp]: "frame st (Environment_define a n v st)"
  by (simp add: frame_def Environment_define_def)

lemma frame_envs [simp]: "frame st (st\<lparr>envs := es\<rparr>)"
  by (simp add: frame_def)

lemma frame_newEnvironment: "newEnvironment p st = (e, st1) \<Longrightarrow> frame st st1"
  by (auto simp: frame_def newEnvironment_def)

lemma frame_allocCallable: "allocCallable c st = (a, st1) \<Longrightarrow> frame st st1"
  by (auto simp: frame_def allocCallable_def)

lemma frame_allocClass: "allocClass c st = (a, st1) \<Longrightarrow> frame st st1"
  by (auto simp: frame_def allocClass_def)

lemma frame_allocInstance: "allocInstance i st = (a, st1) \<Longrightarrow> frame st st1"
  by (auto simp: frame_def allocInstance_def)

lemma frame_set [simp]: "frame st (LoxInstance_set i n v st)"
  by (simp add: frame_def LoxInstance_set_def)

lemma frame_bind: "LoxFunction_bind f v st = (g, st1) \<Longrightarrow> frame st st1"
  by (auto simp: LoxFunction_bind_def split: prod.splits
      dest!: frame_newEnvironment intro: frame_trans[OF _ frame_define])

lemma frame_get: "LoxInstance_get i n st = (r, st1) \<Longrightarrow> frame st st1"
  by (auto simp: LoxInstance_get_def split: option.splits prod.splits
      dest!: frame_bind frame_allocCallable intro: frame_trans)

lemma frame_native: "callNative h k args st = (v, st1) \<Longrightarrow> frame st st1"
  by (cases k) (auto simp: frame_def Let_def)

lemma frame_defineParams [simp]: "frame st (defineParams e ps args st)"
  by (induction ps arbitrary: args st) (auto intro: frame_trans[OF frame_define])

lemma keeps_lookUpVariable [simp]: "keeps st (lookUpVariable k st n e)"
  by (auto simp: lookUpVariable_def keeps_def split: option.splits)

lemma frame_restore: "frame (st\<lparr>env := e\<rparr>) st1 \<Longrightarrow> frame st (st1\<lparr>env := env st\<rparr>)"
  by (simp add: frame_def)


lemma keeps_get [simp]: "keeps st (Some (LoxInstance_get i n st))"
  by (cases "LoxInstance_get i n st") (auto dest: frame_get)

lemma keeps_visitArgsWith:
  "(\<And>e st. keeps st (visit e st)) \<Longrightarrow> keeps st (visitArgsWith visit es st)"
  by (induction es arbitrary: st) (auto intro!: keeps_andThen)

lemma keeps_executeStmtsWith:
  "(\<And>s st. keeps st (visit s st)) \<Longrightarrow> keeps st (executeStmtsWith visit ss st)"
  by (induction ss arbitrary: st) (auto intro!: keeps_andThen)

lemma keeps_executeBlockWith:
  "(\<And>s st. keeps st (visit s st)) \<Longrightarrow> keeps st (executeBlockWith visit ss e st)"
  using keeps_executeStmtsWith[of visit "st\<lparr>env := e\<rparr>" ss]
  by (auto simp: executeBlockWith_def keeps_def Let_def split: option.splits intro: frame_restore)

lemma keeps_step:
  assumes IH: "\<And>task st. keeps st (run n h task st)"
  shows "keeps st (run (Suc n) h task st)"
proof -
  have E: "\<And>e st. keeps st (visitExpr n h e st)"
    using IH by (simp add: visitExpr_def)
  have S: "\<And>s st. keeps st (visitStmt n h s st)"
    using IH by (simp add: visitStmt_def)
  have W: "\<And>c b st. keeps st (whileLoop n h c b st)"
    using IH by (simp add: whileLoop_def)
  have C: "\<And>c args st. keeps st (call n h c args st)"
    using IH by (simp add: call_def)
  have F: "\<And>f args st. keeps st (LoxFunction_call n h f args st)"
    using IH by (simp add: LoxFunction_call_def)
  have A: "\<And>es st. keeps st (visitArgs n h es st)"
    unfolding visitArgs_def by (rule keeps_visitArgsWith) (rule E)
  have B: "\<And>ss e st. keeps st (executeBlock n h ss e st)"
    unfolding executeBlock_def by (rule keeps_executeBlockWith) (rule S)
  show ?thesis
  proof (cases task)
    case (VisitExpr e)
    have "keeps st (visitExpr (Suc n) h e st)"
    proof (cases e)
      case (AssignExpr x nm opr e1)
      show ?thesis unfolding AssignExpr visitAssignExpr
        by (intro keeps_andThen E)
           (auto split: option.splits sum.splits intro!: keeps_andThen)
    next
      case (SetExpr obj nm opr e1)
      show ?thesis unfolding SetExpr visitSetExpr
        by (intro keeps_andThen E)
           (auto split: option.splits InternalValue.splits prod.splits intro!: keeps_andThen E
                 simp: frame_get dest: frame_get)
    next
      case (SuperExpr x kw m)
      show ?thesis unfolding SuperExpr visitSuperExpr
        by (auto simp: Let_def split: InternalValue.splits option.splits prod.splits
              dest!: frame_bind frame_allocCallable intro: frame_trans)
    next
      case (LiteralExpr v)
      show ?thesis unfolding LiteralExpr visitLiteralExpr by simp
    next
      case (GroupingExpr e1)
      show ?thesis unfolding GroupingExpr visitGroupingExpr by (rule E)
    next
      case (UnaryExpr opr e1)
      show ?thesis unfolding UnaryExpr visitUnaryExpr
        by (rule keeps_andThen[OF E]) simp
    next
      case (BinaryExpr l opr r)
      show ?thesis unfolding BinaryExpr visitBinaryExpr
        by (rule keeps_andThen[OF E], rule keeps_andThen[OF E]) simp
    next
      case (VariableExpr x nm)
      show ?thesis unfolding VariableExpr visitVariableExpr by simp
    next
      case (LogicalExpr l opr r)
      show ?thesis unfolding LogicalExpr visitLogicalExpr
        by (rule keeps_andThen[OF E]) (simp add: E)
    next
      case (CallExpr ce paren args)
      show ?thesis unfolding CallExpr visitCallExpr
        by (rule keeps_andThen[OF E], rule keeps_andThen[OF A]) (simp add: C)
    next
      case (GetExpr obj nm)
      show ?thesis unfolding GetExpr visitGetExpr
        by (rule keeps_andThen[OF E]) (simp split: InternalValue.splits)
    next
      case (ThisExpr x kw)
      show ?thesis unfolding ThisExpr visitThisExpr by simp
    qed
    then show ?thesis by (simp add: VisitExpr visitExpr_def)
  next
    case (VisitStmt s)
    have "keeps st (visitStmt (Suc n) h s st)"
    proof (cases s)
      case (ClassStmt nm sc ms)
      have sup: "keeps st (case sc of None \<Rightarrow> Some (Inr VNil, st)
                           | Some (i, t) \<Rightarrow> visitExpr n h (VariableExpr i t) st)"
        by (simp add: E split: option.splits prod.splits)
      show ?thesis unfolding ClassStmt visitClassStmt
        by (rule keeps_andThen[OF sup])
           (auto simp: keeps_def frame_def Let_def allocClass_def newEnvironment_def
                 Environment_define_def
               split: option.splits sum.splits prod.splits if_splits)
    next
      case (ExpressionStmt e1)
      show ?thesis unfolding ExpressionStmt visitExpressionStmt
        by (rule keeps_andThen[OF E]) simp
    next
      case (VarStmt nm ini)
      have "keeps st (case ini of None \<Rightarrow> Some (Inr VNil, st) | Some e \<Rightarrow> visitExpr n h e st)"
        by (simp add: E split: option.splits)
      then show ?thesis unfolding VarStmt visitVarStmt
        by (rule keeps_andThen) simp
    next
      case (BlockStmt ss)
      obtain e st1 where ne: "newEnvironment (Some (env st)) st = (e, st1)"
        by (cases "newEnvironment (Some (env st)) st")
      show ?thesis unfolding BlockStmt visitBlockStmt ne
        using keeps_from[OF frame_newEnvironment[OF ne] B] by simp
    next
      case (IfStmt c t e)
      show ?thesis unfolding IfStmt visitIfStmt
        by (rule keeps_andThen[OF E])
           (auto intro!: keeps_andThen[OF S] split: option.splits)
    next
      case (WhileStmt c b)
      show ?thesis unfolding WhileStmt visitWhileStmt by (rule W)
    next
      case (FunctionStmt d)
      show ?thesis unfolding FunctionStmt visitFunctionStmt
        by (auto simp: frame_def allocCallable_def Environment_define_def)
    next
      case (ReturnStmt kw e)
      have "keeps st (case e of None \<Rightarrow> Some (Inr VNil, st) | Some x \<Rightarrow> visitExpr n h x st)"
        by (simp add: E split: option.splits)
      then show ?thesis unfolding ReturnStmt visitReturnStmt
        by (rule keeps_andThen) simp
    qed
    then show ?thesis by (simp add: VisitStmt visitStmt_def)
  next
    case (WhileLoop c b)
    have "keeps st (whileLoop (Suc n) h c b st)"
      unfolding whileLoop_Suc
      by (rule keeps_andThen[OF E]) (auto intro!: keeps_andThen[OF S] W)
    then show ?thesis by (simp add: WhileLoop whileLoop_def)
  next
    case (Call c args)
    have "keeps st (call (Suc n) h c args st)"
    proof (cases c)
      case (VCallable a)
      show ?thesis unfolding VCallable call_callable
        by (auto split: Callable.splits prod.splits dest: frame_native intro: F)
    next
      case (VClass k)
      show ?thesis unfolding VClass call_class
        by (auto split: option.splits prod.splits dest!: frame_allocInstance frame_bind
              intro!: keeps_andThen intro: frame_trans keeps_from[OF _ F])
    qed (simp_all add: call_other)
    then show ?thesis by (simp add: Call call_def)
  next
    case (CallFunction f args)
    have "keeps st (LoxFunction_call (Suc n) h f args st)"
    proof -
      obtain e st1 where ne: "newEnvironment (Some (closure f)) st = (e, st1)"
        by (cases "newEnvironment (Some (closure f)) st")
      have fr: "frame st (defineParams e (params (decl f)) args st1)"
        using frame_newEnvironment[OF ne] frame_defineParams frame_trans by blast
      have "keeps (defineParams e (params (decl f)) args st1)
              (executeBlock n h (body (decl f)) e (defineParams e (params (decl f)) args st1))"
        by (rule B)
      then show ?thesis
        using fr unfolding LoxFunction_call_Suc ne
        by (auto simp: keeps_def  split: option.splits sum.splits exc.splits if_splits
              intro: frame_trans)
    qed
    then show ?thesis by (simp add: CallFunction LoxFunction_call_def)
  qed
qed

lemma run_keeps: "keeps st (run n h task st)"
  by (induction n arbitrary: task st) (simp, rule keeps_step)

lemma visitExpr_frame: "visitExpr n h e st = Some (r, st') \<Longrightarrow> frame st st'"
  using run_keeps[of st n h "VisitExpr e"] by (simp add: keeps_def visitExpr_def)

lemma visitStmt_frame: "visitStmt n h s st = Some (r, st') \<Longrightarrow> frame st st'"
  using run_keeps[of st n h "VisitStmt s"] by (simp add: keeps_def visitStmt_def)

lemma call_frame: "call n h c args st = Some (r, st') \<Longrightarrow> frame st st'"
  using run_keeps[of st n h "Call c args"] by (simp add: keeps_def call_def)

lemma LoxFunction_call_frame: "LoxFunction_call n h f args st = Some (r, st') \<Longrightarrow> frame st st'"
  using run_keeps[of st n h "CallFunction f args"] by (simp add: keeps_def LoxFunction_call_def)

lemma executeStmts_frame: "executeStmts n h ss st = Some (r, st') \<Longrightarrow> frame st st'"
  using keeps_executeStmtsWith[of "visitStmt n h" st ss] run_keeps
  by (simp add: keeps_def executeStmts_def visitStmt_def)

lemma executeBlock_frame: "executeBlock n h ss e st = Some (r, st') \<Longrightarrow> frame st st'"
  using keeps_executeBlockWith[of "visitStmt n h" st ss e] run_keeps
  by (simp add: keeps_def executeBlock_def visitStmt_def)

section \<open>Running the evaluator on concrete programs\<close>

lemmas evaluator_simps =
  visitExpr_0 visitStmt_0 whileLoop_0 call_0 LoxFunction_call_0
  visitLiteralExpr visitGroupingExpr visitUnaryExpr visitBinaryExpr visitAssignExpr
  visitVariableExpr visitLogicalExpr visitCallExpr visitGetExpr visitSetExpr visitThisExpr
  visitSuperExpr visitArgs_Nil visitArgs_Cons visitExpressionStmt visitVarStmt visitBlockStmt
  visitIfStmt visitWhileStmt whileLoop_Suc visitFunctionStmt visitReturnStmt visitClassStmt
  executeStmts_Nil executeStmts_Cons executeBlock_eq call_callable call_class
  LoxFunction_call_Suc

lemmas store_defs =
  andThen_def newEnvironment_def Environment_define_def allocCallable_def allocClass_def
  allocInstance_def LoxFunction_bind_def LoxInstance_get_def LoxInstance_set_def
  lookUpVariable_def getAt_def assignAt_def globals_def newInterpreter_def token_def
  exampleHost_def binaryOp_def undefinedVariable_def undefinedProperty_def evaluate_def
  Let_def

section \<open>Blocks and the current environment\<close>

text \<open>
  C10. \<^verbatim>\<open>executeBlock\<close> leaves the current environment as it found it, whatever the
  outcome of the statements: a value, a return, a runtime error or a host error; so does a
  block statement. A run of \<^verbatim>\<open>evaluate\<close> that starts with the globals as the current
  environment ends with the globals as the current environment, also when a runtime error
  aborted the statement list.
\<close>

theorem block_restores_environment:
  "(\<forall>r st'. executeBlock n h statements e st = Some (r, st') \<longrightarrow> env st' = env st)
   \<and> (\<forall>r st'. visitStmt n h (BlockStmt statements) st = Some (r, st') \<longrightarrow> env st' = env st)
   \<and> (\<forall>x st'. env st = globals \<and> evaluate n h statements st = Some (x, st')
         \<longrightarrow> env st' = globals)"
proof (intro conjI allI impI)
  fix r st' assume "executeBlock n h statements e st = Some (r, st')"
  then show "env st' = env st"
    by (auto simp: executeBlock_eq Let_def split: option.splits)
next
  fix r st' assume "visitStmt n h (BlockStmt statements) st = Some (r, st')"
  then show "env st' = env st"
    by (auto dest: visitStmt_frame simp: frame_def)
next
  fix x st' assume a: "env st = globals \<and> evaluate n h statements st = Some (x, st')"
  then show "env st' = globals"
    by (auto simp: evaluate_def frame_def split: option.splits sum.splits exc.splits
          dest!: executeStmts_frame)
qed

theorem block_restores_environment_witness:
  "\<exists>st'. evaluate 5 exampleHost failingBlock newInterpreter = Some (None, st')
      \<and> hadRuntimeError st' \<and> env st' = globals"
  using block_restores_environment[of 5 exampleHost failingBlock 0 newInterpreter]
  by (simp add: eval_nat_numeral evaluator_simps store_defs failingBlock_def)

section \<open>Non-local return\<close>

text \<open>
  C5. A call of a function that completes leaves the current environment and the
  runtime-error flag as they were, and its outcome is never a pending return; when the
  body ends in a return of \<open>v\<close>, the call of a function that is not an initializer yields
  \<open>v\<close>. A return raised by a statement leaves a statement list, a block (which restores the
  environment), an \<^verbatim>\<open>if\<close> and a \<^verbatim>\<open>while\<close> unchanged, so it reaches the call from any
  nesting depth. \<^verbatim>\<open>evaluate\<close> sets the runtime-error flag only for a runtime error.
\<close>

theorem nonlocal_return:
  "(\<forall>r st'. LoxFunction_call n h f args st = Some (r, st') \<longrightarrow>
       env st' = env st \<and> hadRuntimeError st' = hadRuntimeError st \<and> (\<forall>v. r \<noteq> Inl (Return v)))
   \<and> (\<forall>e st1 v st3.
         newEnvironment (Some (closure f)) st = (e, st1)
         \<and> executeBlock n h (body (decl f)) e (defineParams e (params (decl f)) args st1)
             = Some (Inl (Return v), st3)
         \<and> \<not> isInitializer f
         \<longrightarrow> LoxFunction_call (Suc n) h f args st = Some (Inr v, st3))
   \<and> (\<forall>x st1. visitStmt n h s st = Some (Inl x, st1)
         \<longrightarrow> executeStmts n h (s # ss) st = Some (Inl x, st1))
   \<and> (\<forall>x e st1. executeStmts n h ss (st\<lparr>env := e\<rparr>) = Some (Inl x, st1)
         \<longrightarrow> executeBlock n h ss e st = Some (Inl x, st1\<lparr>env := env st\<rparr>))
   \<and> (\<forall>x cv st1 st2. visitExpr n h c st = Some (Inr cv, st1) \<and> truthy cv
           \<and> visitStmt n h s st1 = Some (Inl x, st2)
         \<longrightarrow> visitStmt (Suc n) h (IfStmt c s els) st = Some (Inl x, st2)
           \<and> whileLoop (Suc n) h c s st = Some (Inl x, st2))
   \<and> (\<forall>x st'. evaluate n h ss st = Some (x, st') \<and> hadRuntimeError st' \<and> \<not> hadRuntimeError st
         \<longrightarrow> (\<exists>t m st1. executeStmts n h ss st = Some (Inl (RuntimeError t m), st1)))"
proof -
  have c1: "\<forall>r st'. LoxFunction_call n h f args st = Some (r, st') \<longrightarrow>
       env st' = env st \<and> hadRuntimeError st' = hadRuntimeError st \<and> (\<forall>v. r \<noteq> Inl (Return v))"
  proof (intro allI impI)
    fix r st' assume a: "LoxFunction_call n h f args st = Some (r, st')"
    from LoxFunction_call_frame[OF a]
    have "env st' = env st" "hadRuntimeError st' = hadRuntimeError st"
      by (simp_all add: frame_def)
    moreover have "\<forall>v. r \<noteq> Inl (Return v)"
    proof (cases n)
      case 0
      with a show ?thesis by (simp add: LoxFunction_call_0)
    next
      case (Suc k)
      with a show ?thesis
        by (auto simp: LoxFunction_call_Suc Let_def
              split: prod.splits option.splits sum.splits exc.splits if_splits)
    qed
    ultimately show "env st' = env st \<and> hadRuntimeError st' = hadRuntimeError st
        \<and> (\<forall>v. r \<noteq> Inl (Return v))"
      by simp
  qed
  have c2: "\<forall>e st1 v st3.
         newEnvironment (Some (closure f)) st = (e, st1)
         \<and> executeBlock n h (body (decl f)) e (defineParams e (params (decl f)) args st1)
             = Some (Inl (Return v), st3)
         \<and> \<not> isInitializer f
         \<longrightarrow> LoxFunction_call (Suc n) h f args st = Some (Inr v, st3)"
    by (simp add: LoxFunction_call_Suc)
  have c3: "\<forall>x st1. visitStmt n h s st = Some (Inl x, st1)
         \<longrightarrow> executeStmts n h (s # ss) st = Some (Inl x, st1)"
    by (simp add: executeStmts_Cons andThen_def)
  have c4: "\<forall>x e st1. executeStmts n h ss (st\<lparr>env := e\<rparr>) = Some (Inl x, st1)
         \<longrightarrow> executeBlock n h ss e st = Some (Inl x, st1\<lparr>env := env st\<rparr>)"
    by (simp add: executeBlock_eq)
  have c5: "\<forall>x cv st1 st2. visitExpr n h c st = Some (Inr cv, st1) \<and> truthy cv
           \<and> visitStmt n h s st1 = Some (Inl x, st2)
         \<longrightarrow> visitStmt (Suc n) h (IfStmt c s els) st = Some (Inl x, st2)
           \<and> whileLoop (Suc n) h c s st = Some (Inl x, st2)"
    by (simp add: visitIfStmt whileLoop_Suc andThen_def)
  have c6: "\<forall>x st'. evaluate n h ss st = Some (x, st') \<and> hadRuntimeError st' \<and> \<not> hadRuntimeError st
         \<longrightarrow> (\<exists>t m st1. executeStmts n h ss st = Some (Inl (RuntimeError t m), st1))"
    by (auto simp: evaluate_def frame_def split: option.splits sum.splits exc.splits
          dest!: executeStmts_frame)
  show ?thesis
    by (intro conjI) (rule c1 c2 c3 c4 c5 c6)+
qed

theorem nonlocal_return_witness:
  "\<exists>st'. LoxFunction_call 9 exampleHost \<lparr>decl = returnDeep, closure = globals, isInitializer = False\<rparr> []
      newInterpreter = Some (Inr (VString ''deep''), st')
      \<and> env st' = env newInterpreter \<and> \<not> hadRuntimeError st'"
  using nonlocal_return[of 9 exampleHost
      "\<lparr>decl = returnDeep, closure = globals, isInitializer = False\<rparr>" "[]" newInterpreter]
  by (simp add: eval_nat_numeral evaluator_simps store_defs returnDeep_def)

section \<open>Truthiness\<close>

text \<open>
  C1, as the specification states it, fails: the number 0 and the empty string are falsy
  for the evaluator, so \<^verbatim>\<open>0 or "right"\<close> yields the right operand and \<^verbatim>\<open>!""\<close>
  yields true.
\<close>

theorem truthiness_counterexample:
  "specTruthy (VNumber 0) \<and> \<not> truthy (VNumber 0)
   \<and> visitExpr 2 exampleHost zeroOrRight newInterpreter
       = Some (Inr (VString ''right''), newInterpreter)
   \<and> specTruthy (VString '''') \<and> \<not> truthy (VString '''')
   \<and> visitExpr 2 exampleHost notEmptyString newInterpreter
       = Some (Inr (VBool True), newInterpreter)"
  by (simp add: specTruthy_def isZero_def zeroOrRight_def notEmptyString_def token_def
        eval_nat_numeral visitLogicalExpr visitUnaryExpr visitLiteralExpr andThen_def)

text \<open>
  C1, amended. The falsy values are nil, false, the empty string and the numbers \<open>+0\<close>,
  \<open>-0\<close> and NaN; every other value is truthy. This one rule decides which operand
  \<^verbatim>\<open>or\<close> and \<^verbatim>\<open>and\<close> yield (the operand itself, not a boolean), the result of
  \<^verbatim>\<open>!\<close>, the branch an \<^verbatim>\<open>if\<close> takes and whether a \<^verbatim>\<open>while\<close> goes on.
\<close>

theorem host_truthiness_decides:
  "(truthy v \<longleftrightarrow>
      v \<noteq> VNil \<and> v \<noteq> VBool False \<and> v \<noteq> VString ''''
      \<and> (\<forall>w. v = VNumber w \<longrightarrow> \<not> isZero w \<and> \<not> isNaN w))
   \<and> (\<forall>left st1. visitExpr n h l st = Some (Inr left, st1) \<longrightarrow>
         visitExpr (Suc n) h (LogicalExpr l operator r) st =
           (if type operator = OR
            then (if truthy left then Some (Inr left, st1) else visitExpr n h r st1)
            else (if truthy left then visitExpr n h r st1 else Some (Inr left, st1))))
   \<and> (\<forall>right st1. visitExpr n h r st = Some (Inr right, st1) \<and> type operator = BANG \<longrightarrow>
         visitExpr (Suc n) h (UnaryExpr operator r) st = Some (Inr (VBool (\<not> truthy right)), st1))
   \<and> (\<forall>c st1. visitExpr n h condition st = Some (Inr c, st1) \<longrightarrow>
         visitStmt (Suc n) h (IfStmt condition thenBranch elseBranch) st =
           (if truthy c
            then andThen (visitStmt n h thenBranch st1) (\<lambda>v st2. Some (Inr VNil, st2))
            else (case elseBranch of
                    Some s \<Rightarrow> andThen (visitStmt n h s st1) (\<lambda>v st2. Some (Inr VNil, st2))
                  | None \<Rightarrow> Some (Inr VNil, st1)))
       \<and> whileLoop (Suc n) h condition b st =
           (if truthy c
            then andThen (visitStmt n h b st1) (\<lambda>u st2. whileLoop n h condition b st2)
            else Some (Inr VNil, st1)))"
proof -
  have c1: "truthy v \<longleftrightarrow>
      v \<noteq> VNil \<and> v \<noteq> VBool False \<and> v \<noteq> VString ''''
      \<and> (\<forall>w. v = VNumber w \<longrightarrow> \<not> isZero w \<and> \<not> isNaN w)"
    by (cases v) auto
  show ?thesis
    unfolding visitLogicalExpr visitUnaryExpr visitIfStmt whileLoop_Suc
    by (intro conjI c1) (simp_all add: andThen_def)
qed

theorem host_truthiness_decides_witness:
  "\<not> truthy (VNumber 0)
   \<and> visitExpr 2 exampleHost zeroOrRight newInterpreter
       = Some (Inr (VString ''right''), newInterpreter)
   \<and> visitExpr 2 exampleHost notEmptyString newInterpreter
       = Some (Inr (VBool True), newInterpreter)
   \<and> visitStmt 2 exampleHost
        (IfStmt (LiteralExpr (VString '''')) (ReturnStmt (token RETURN ''return'') None) None)
        newInterpreter = Some (Inr VNil, newInterpreter)
   \<and> whileLoop 2 exampleHost (LiteralExpr (VNumber 0)) (ReturnStmt (token RETURN ''return'') None)
        newInterpreter = Some (Inr VNil, newInterpreter)"
  using host_truthiness_decides[of "VNumber 0" 1 exampleHost "LiteralExpr (VNumber 0)"
      newInterpreter "token OR ''or''" "LiteralExpr (VString ''right'')"]
    host_truthiness_decides[of VNil 1 exampleHost "LiteralExpr (VString '''')"
      newInterpreter "token BANG ''!''" "LiteralExpr (VString '''')"
      "LiteralExpr (VString '''')" "ReturnStmt (token RETURN ''return'') None" None
      "ReturnStmt (token RETURN ''return'') None"]
    host_truthiness_decides[of VNil 1 exampleHost "LiteralExpr (VString '''')"
      newInterpreter "token BANG ''!''" "LiteralExpr (VString '''')"
      "LiteralExpr (VNumber 0)" "ReturnStmt (token RETURN ''return'') None" None
      "ReturnStmt (token RETURN ''return'') None"]
  by (simp add: isZero_def zeroOrRight_def notEmptyString_def token_def
        eval_nat_numeral visitLiteralExpr)

section \<open>Calls\<close>

lemma showNat_small: "showNat 0 = ''0''" "showNat (Suc 0) = ''1''" "showNat (Suc (Suc 0)) = ''2''"
  by (simp_all add: showNat.simps)

text \<open>
  C6, as stated, fails: the arguments are evaluated before the callee is tested, so
  \<^verbatim>\<open>nil(x)\<close> with \<^verbatim>\<open>x\<close> undefined raises the error of the argument, not
  "Can only call functions and classes.".
\<close>

theorem callee_check_counterexample:
  "visitExpr 3 exampleHost callNilWithUndefined newInterpreter
     = Some (Inl (undefinedVariable (token IDENTIFIER ''x'')), newInterpreter)
   \<and> undefinedVariable (token IDENTIFIER ''x'')
     \<noteq> RuntimeError (token RPAREN '')'') ''Can only call functions and classes.''"
  by (simp add: callNilWithUndefined_def eval_nat_numeral evaluator_simps store_defs)

text \<open>
  C6, amended. A call evaluates the callee, then the arguments from left to right (an
  exception of the callee or of an argument is the outcome of the call, and stops the
  evaluation of the later arguments); only then, a callee that is neither a function nor a
  class raises "Can only call functions and classes."; else a number of arguments other
  than the arity raises "Expected N arguments but got M."; else the call is dispatched.
\<close>

theorem call_evaluation:
  "(\<forall>x st1. visitExpr n h calleeExpr st = Some (Inl x, st1) \<longrightarrow>
       visitExpr (Suc n) h (CallExpr calleeExpr paren arguments) st = Some (Inl x, st1))
   \<and> (\<forall>callee st1 x st2.
         visitExpr n h calleeExpr st = Some (Inr callee, st1)
         \<and> visitArgs n h arguments st1 = Some (Inl x, st2) \<longrightarrow>
         visitExpr (Suc n) h (CallExpr calleeExpr paren arguments) st = Some (Inl x, st2))
   \<and> (\<forall>callee st1 args st2.
         visitExpr n h calleeExpr st = Some (Inr callee, st1)
         \<and> visitArgs n h arguments st1 = Some (Inr args, st2) \<longrightarrow>
         visitExpr (Suc n) h (CallExpr calleeExpr paren arguments) st =
           (if \<not> isCallable callee
            then Some (Inl (RuntimeError paren ''Can only call functions and classes.''), st2)
            else if length args \<noteq> arity st2 callee
            then Some (Inl (RuntimeError paren
                   (''Expected '' @ showNat (arity st2 callee) @ '' arguments but got ''
                      @ showNat (length args) @ ''.'')), st2)
            else call n h callee args st2))
   \<and> (\<forall>e es x st1. visitExpr n h e st = Some (Inl x, st1) \<longrightarrow>
         visitArgs n h (e # es) st = Some (Inl x, st1))
   \<and> (\<forall>e es v st1 x st2.
         visitExpr n h e st = Some (Inr v, st1) \<and> visitArgs n h es st1 = Some (Inl x, st2) \<longrightarrow>
         visitArgs n h (e # es) st = Some (Inl x, st2))
   \<and> (\<forall>e es v st1 vs st2.
         visitExpr n h e st = Some (Inr v, st1) \<and> visitArgs n h es st1 = Some (Inr vs, st2) \<longrightarrow>
         visitArgs n h (e # es) st = Some (Inr (v # vs), st2))"
  unfolding visitCallExpr visitArgs_Cons
  by (intro conjI) (simp_all add: andThen_def)

theorem call_evaluation_witness:
  "visitExpr 3 exampleHost callNilWithUndefined newInterpreter
     = Some (Inl (undefinedVariable (token IDENTIFIER ''x'')), newInterpreter)
   \<and> visitExpr 3 exampleHost (CallExpr (LiteralExpr VNil) (token RPAREN '')'') [LiteralExpr VNil])
        newInterpreter
     = Some (Inl (RuntimeError (token RPAREN '')'') ''Can only call functions and classes.''),
             newInterpreter)
   \<and> visitExpr 3 exampleHost
        (CallExpr (VariableExpr 2 (token IDENTIFIER ''clock'')) (token RPAREN '')'') [LiteralExpr VNil])
        newInterpreter
     = Some (Inl (RuntimeError (token RPAREN '')'') ''Expected 0 arguments but got 1.''),
             newInterpreter)"
  using call_evaluation[of 2 exampleHost "LiteralExpr VNil" newInterpreter "token RPAREN '')''"
      "[VariableExpr 1 (token IDENTIFIER ''x'')]"]
    call_evaluation[of 2 exampleHost "LiteralExpr VNil" newInterpreter "token RPAREN '')''"
      "[LiteralExpr VNil]"]
    call_evaluation[of 2 exampleHost "VariableExpr 2 (token IDENTIFIER ''clock'')" newInterpreter
      "token RPAREN '')''" "[LiteralExpr VNil]"]
  by (simp add: callNilWithUndefined_def eval_nat_numeral evaluator_simps store_defs
        showNat_small)

section \<open>Initializers\<close>

text \<open>
  C3 fails on the code. \<^verbatim>\<open>bind\<close> never passes the initializer flag on, and the class
  statement constructs every method, \<^verbatim>\<open>init\<close> included, without it: after
  \<^verbatim>\<open>class A { init() {} }\<close> the method \<^verbatim>\<open>init\<close> of \<^verbatim>\<open>A\<close> is not an
  initializer, \<^verbatim>\<open>A()\<close> yields an instance and \<^verbatim>\<open>A().init()\<close> yields nil.
\<close>

theorem bound_init_returns_nil:
  "(\<forall>f v st. \<not> isInitializer (fst (LoxFunction_bind f v st)))
   \<and> (\<exists>st1 st2 i.
        visitStmt 2 exampleHost classWithInit newInterpreter = Some (Inr VNil, st1)
        \<and> (\<exists>f. findMethod (classes st1 1) ''init'' = Some f \<and> \<not> isInitializer f)
        \<and> visitExpr 3 exampleHost
             (CallExpr (VariableExpr 1 (token IDENTIFIER ''A'')) (token RPAREN '')'') []) st1
           = Some (Inr (VInstance i), st2)
        \<and> (\<exists>st3. visitExpr 7 exampleHost callBoundInit st1 = Some (Inr VNil, st3)))"
  by (simp add: classWithInit_def callBoundInit_def eval_nat_numeral evaluator_simps store_defs
        split_def)

section \<open>The resolver keeps its errors and its kinds\<close>

lemma rframe_refl [simp]: "rframe rs rs"
  by (simp add: rframe_def)

lemma rframe_trans: "rframe a b \<Longrightarrow> rframe b c \<Longrightarrow> rframe a c"
  by (auto simp: rframe_def)

lemma rframe_error [simp]: "rframe rs (Lox_error t m rs)"
  by (auto simp: rframe_def Lox_error_def)

lemma rframe_scopes [simp]: "rframe rs (rs\<lparr>scopes := ss\<rparr>)"
  by (simp add: rframe_def)

lemma rframe_beginScope [simp]: "rframe rs (beginScope rs)"
  by (simp add: beginScope_def)

lemma rframe_endScope [simp]: "rframe rs (endScope rs)"
  by (simp add: endScope_def)

lemma rframe_setInnermost [simp]: "rframe rs (setInnermost n b rs)"
  by (simp add: setInnermost_def)

lemma rframe_declare [simp]: "rframe rs (Resolver_declare n rs)"
  by (auto simp: Resolver_declare_def intro: rframe_trans[OF rframe_error rframe_setInnermost])

lemma rframe_define [simp]: "rframe rs (Resolver_define n rs)"
  by (simp add: Resolver_define_def)

lemma rframe_resolveLocalFrom [simp]: "rframe rs (resolveLocalFrom k x n rs)"
  by (induction k) (auto simp: rframe_def)

lemma rframe_resolveLocal [simp]: "rframe rs (resolveLocal x n rs)"
  by (simp add: resolveLocal_def)

lemma rframe_then:
  "rframe rs rs1 \<Longrightarrow> rframe rs (Lox_error t m rs1)"
  "rframe rs rs1 \<Longrightarrow> rframe rs (beginScope rs1)"
  "rframe rs rs1 \<Longrightarrow> rframe rs (endScope rs1)"
  "rframe rs rs1 \<Longrightarrow> rframe rs (setInnermost n b rs1)"
  "rframe rs rs1 \<Longrightarrow> rframe rs (Resolver_declare t rs1)"
  "rframe rs rs1 \<Longrightarrow> rframe rs (Resolver_define t rs1)"
  "rframe rs rs1 \<Longrightarrow> rframe rs (resolveLocal x t rs1)"
  by (erule rframe_trans, simp)+

lemma rframe_inOrder:
  "(\<And>f s. f \<in> set fs \<Longrightarrow> rframe rs0 s \<Longrightarrow> rframe rs0 (f s)) \<Longrightarrow> rframe rs0 rs
     \<Longrightarrow> rframe rs0 (inOrder fs rs)"
  unfolding inOrder_def
proof (induction fs arbitrary: rs)
  case Nil
  then show ?case by simp
next
  case (Cons a fs)
  have "rframe rs0 (a rs)"
    using Cons.prems by simp
  then show ?case
    using Cons.IH[of "a rs"] Cons.prems(1) by simp
qed

lemma rframe_resolveExpr: "rframe rs0 rs \<Longrightarrow> rframe rs0 (resolveExpr e rs)"
proof (induction e arbitrary: rs)
  case (CallExpr callee paren arguments)
  show ?case
    using CallExpr by (auto intro!: rframe_inOrder)
qed (auto intro!: rframe_then)

lemma rframe_params:
  "rframe rs0 rs \<Longrightarrow>
   rframe rs0 (fold (\<lambda>param x. Resolver_define param (Resolver_declare param x)) ps rs)"
proof (induction ps arbitrary: rs)
  case Nil
  then show ?case by simp
next
  case (Cons a ps)
  have "rframe rs0 (Resolver_define a (Resolver_declare a rs))"
    using Cons.prems by (intro rframe_then)
  then show ?case
    using Cons.IH by simp
qed

lemma rframe_currentFunction:
  "rframe (rs\<lparr>currentFunction := ty\<rparr>) rs' \<Longrightarrow>
   rframe rs (rs'\<lparr>currentFunction := currentFunction rs\<rparr>)"
  by (simp add: rframe_def)

lemma rframe_currentClass:
  "rframe (rs\<lparr>currentClass := ty\<rparr>) rs' \<Longrightarrow>
   rframe rs (rs'\<lparr>currentClass := currentClass rs\<rparr>)"
  by (simp add: rframe_def)

lemma rframe_resolveStmt: "rframe rs0 rs \<Longrightarrow> rframe rs0 (resolveStmt s rs)"
  and rframe_resolveFunction: "rframe rs0 rs \<Longrightarrow> rframe rs0 (resolveFunction d ty rs)"
proof (induction s and d arbitrary: rs0 rs and rs0 rs ty)
  case (ExpressionStmt e)
  then show ?case by (simp add: rframe_resolveExpr)
next
  case (VarStmt n ini)
  then show ?case
    by (cases ini) (auto intro!: rframe_then rframe_resolveExpr)
next
  case (BlockStmt ss)
  show ?case
    by (auto intro!: rframe_then rframe_inOrder BlockStmt.prems intro: BlockStmt.IH)
next
  case (IfStmt c t e)
  show ?case
    by (cases e) (auto intro!: IfStmt.IH rframe_resolveExpr IfStmt.prems)
next
  case (WhileStmt c b)
  show ?case by (auto intro!: WhileStmt.IH rframe_resolveExpr WhileStmt.prems)
next
  case (FunctionStmt d)
  show ?case by (auto intro!: FunctionStmt.IH rframe_then FunctionStmt.prems)
next
  case (ReturnStmt kw e)
  then show ?case
    by (cases e) (auto simp: Let_def intro!: rframe_then rframe_resolveExpr)
next
  case (ClassStmt n sc ms)
  define rs1 where "rs1 = Resolver_define n (Resolver_declare n (rs\<lparr>currentClass := ClassType_CLASS\<rparr>))"
  define rs2 where "rs2 = (case sc of
                   None \<Rightarrow> rs1
                 | Some (i, t) \<Rightarrow>
                     setInnermost ''super'' True
                       (beginScope
                          (resolveExpr (VariableExpr i t)
                             ((if lexeme n = lexeme t
                               then Lox_error t ''A class cannot inherit from itself.'' rs1
                               else rs1)\<lparr>currentClass := ClassType_SUBCLASS\<rparr>))))"
  define rs4 where "rs4 = inOrder
                  (map (\<lambda>m. resolveFunction m
                               (if lexeme (name m) = ''init'' then FunctionType_INITIALIZER
                                else FunctionType_METHOD)) ms) (setInnermost ''this'' True (beginScope rs2))"
  define rs6 where "rs6 = (if sc \<noteq> None then endScope (endScope rs4) else endScope rs4)"
  have e: "resolveStmt (ClassStmt n sc ms) rs = rs6\<lparr>currentClass := currentClass rs\<rparr>"
    unfolding rs6_def rs4_def rs2_def rs1_def by (simp add: Let_def)
  have a1: "rframe (rs\<lparr>currentClass := ClassType_CLASS\<rparr>) rs1"
    unfolding rs1_def by (intro rframe_then) simp
  have b: "set (errors rs1) \<subseteq> set (errors rs2) \<and> currentFunction rs2 = currentFunction rs1"
  proof (cases sc)
    case None
    then show ?thesis by (simp add: rs2_def)
  next
    case (Some p)
    obtain i t where p: "p = (i, t)" by (cases p)
    define rs1' where "rs1' = (if lexeme n = lexeme t
                               then Lox_error t ''A class cannot inherit from itself.'' rs1
                               else rs1)"
    have x: "rframe rs1 rs1'" by (simp add: rs1'_def)
    have "rframe (rs1'\<lparr>currentClass := ClassType_SUBCLASS\<rparr>) rs2"
      unfolding rs2_def Some p rs1'_def option.case prod.case
      by (intro rframe_then rframe_resolveExpr) simp
    then show ?thesis using x by (auto simp: rframe_def)
  qed
  have c: "rframe rs2 rs4"
    unfolding rs4_def
    by (intro rframe_inOrder rframe_then) (auto intro: ClassStmt.IH)
  have d: "rframe rs4 rs6"
    unfolding rs6_def by (auto intro!: rframe_then)
  have errs: "set (errors rs) \<subseteq> set (errors rs6)" and cf: "currentFunction rs6 = currentFunction rs"
    using a1 b c d by (auto simp: rframe_def)
  show ?case
    using ClassStmt.prems errs cf unfolding e by (auto simp: rframe_def)
next
  case (FunctionDecl n ps b)
  have "rframe (rs\<lparr>currentFunction := ty\<rparr>)
          (endScope (inOrder (map resolveStmt b)
             (fold (\<lambda>param x. Resolver_define param (Resolver_declare param x)) ps
                (beginScope (rs\<lparr>currentFunction := ty\<rparr>)))))"
    by (intro rframe_then rframe_inOrder rframe_params) (auto intro: FunctionDecl.IH)
  from rframe_currentFunction[OF this] show ?case
    using FunctionDecl.prems by (auto simp: Let_def intro: rframe_trans)
qed

lemma nonlocal_return_frame:
  "LoxFunction_call n h f args st = Some (r, st') \<Longrightarrow> r \<noteq> Inl (Return v)"
proof (cases n)
  case 0
  assume "LoxFunction_call n h f args st = Some (r, st')"
  with 0 show ?thesis by (simp add: LoxFunction_call_0)
next
  case (Suc k)
  assume "LoxFunction_call n h f args st = Some (r, st')"
  with Suc show ?thesis
    by (auto simp: LoxFunction_call_Suc Let_def
          split: prod.splits option.splits sum.splits exc.splits if_splits)
qed

lemma inOrder_member:
  assumes "s \<in> set ss"
    and "I rs"
    and step: "\<And>r. I r \<Longrightarrow> Q (f s r)"
    and inv: "\<And>x r. x \<in> set ss \<Longrightarrow> I r \<Longrightarrow> I (f x r)"
    and mono: "\<And>x r. x \<in> set ss \<Longrightarrow> Q r \<Longrightarrow> Q (f x r)"
  shows "Q (inOrder (map f ss) rs)"
proof -
  have keepQ: "\<And>r. set xs \<subseteq> set ss \<Longrightarrow> Q r \<Longrightarrow> Q (inOrder (map f xs) r)" for xs
    unfolding inOrder_def by (induction xs) (auto intro: mono)
  have "set xs \<subseteq> set ss \<Longrightarrow> s \<in> set xs \<Longrightarrow> I r \<Longrightarrow> Q (inOrder (map f xs) r)" for xs r
  proof (induction xs arbitrary: r)
    case Nil
    then show ?case by simp
  next
    case (Cons x xs)
    show ?case
    proof (cases "x = s")
      case True
      have "Q (f s r)" using Cons.prems(3) by (rule step)
      then have "Q (inOrder (map f xs) (f s r))"
        using Cons.prems(1) by (intro keepQ) auto
      then show ?thesis by (simp add: True inOrder_def)
    next
      case False
      have "I (f x r)" using Cons.prems by (intro inv) auto
      then have "Q (inOrder (map f xs) (f x r))"
        using Cons.prems False by (intro Cons.IH) auto
      then show ?thesis by (simp add: inOrder_def)
    qed
  qed
  then show ?thesis using assms(1,2) by blast
qed

lemma rframe_errors: "rframe rs rs' \<Longrightarrow> x \<in> set (errors rs) \<Longrightarrow> x \<in> set (errors rs')"
  by (auto simp: rframe_def)

lemma rframe_fun: "rframe rs rs' \<Longrightarrow> currentFunction rs' = currentFunction rs"
  by (auto simp: rframe_def)

lemma valueReturns_reported:
  "currentFunction rs = FunctionType_INITIALIZER \<Longrightarrow> keyword \<in> set (valueReturns s)
     \<Longrightarrow> initializerReturnError keyword \<in> set (errors (resolveStmt s rs))"
  and "(d::FunctionDecl) = d"
proof (induction s and d arbitrary: rs)
  case (BlockStmt ss)
  from BlockStmt.prems obtain s where s: "s \<in> set ss" "keyword \<in> set (valueReturns s)"
    by auto
  have "initializerReturnError keyword
          \<in> set (errors (inOrder (map resolveStmt ss) (beginScope rs)))"
  proof (rule inOrder_member[where I = "\<lambda>r::Resolver. currentFunction r = FunctionType_INITIALIZER"
        and Q = "\<lambda>r::Resolver. initializerReturnError keyword \<in> set (errors r)", OF s(1)])
    show "currentFunction (beginScope rs) = FunctionType_INITIALIZER"
      using BlockStmt.prems by (simp add: beginScope_def)
  next
    fix r :: Resolver assume "currentFunction r = FunctionType_INITIALIZER"
    then show "initializerReturnError keyword \<in> set (errors (resolveStmt s r))"
      using BlockStmt.IH s by blast
  next
    fix x and r :: Resolver assume "currentFunction r = FunctionType_INITIALIZER"
    then show "currentFunction (resolveStmt x r) = FunctionType_INITIALIZER"
      using rframe_fun[OF rframe_resolveStmt[OF rframe_refl, of r x]] by simp
  next
    fix x and r :: Resolver assume "initializerReturnError keyword \<in> set (errors r)"
    then show "initializerReturnError keyword \<in> set (errors (resolveStmt x r))"
      using rframe_errors[OF rframe_resolveStmt[OF rframe_refl, of r x]] by simp
  qed
  then show ?case by (simp add: endScope_def)
next
  case (IfStmt c t e)
  have cf: "currentFunction (resolveExpr c rs) = FunctionType_INITIALIZER"
    using rframe_fun[OF rframe_resolveExpr[OF rframe_refl, of rs c]] IfStmt.prems by simp
  show ?case
  proof (cases "keyword \<in> set (valueReturns t)")
    case True
    have "initializerReturnError keyword \<in> set (errors (resolveStmt t (resolveExpr c rs)))"
      using IfStmt.IH(1)[OF cf True] .
    then show ?thesis
      by (cases e) (auto intro: rframe_errors[OF rframe_resolveStmt[OF rframe_refl]])
  next
    case False
    with IfStmt.prems obtain a where a: "e = Some a" "keyword \<in> set (valueReturns a)"
      by (cases e) auto
    have "currentFunction (resolveStmt t (resolveExpr c rs)) = FunctionType_INITIALIZER"
      using rframe_fun[OF rframe_resolveStmt[OF rframe_refl, of "resolveExpr c rs" t]] cf by simp
    then show ?thesis
      using IfStmt.IH(2)[of a] a by simp
  qed
next
  case (WhileStmt c b)
  have cf: "currentFunction (resolveExpr c rs) = FunctionType_INITIALIZER"
    using rframe_fun[OF rframe_resolveExpr[OF rframe_refl, of rs c]] WhileStmt.prems by simp
  show ?case
    using WhileStmt.IH[OF cf] WhileStmt.prems by simp
next
  case (ReturnStmt kw e)
  then obtain x where x: "e = Some x" "keyword = kw"
    by (cases e) auto
  have "initializerReturnError keyword \<in> set (errors (Lox_error kw ''Cannot return a InternalValue from an initializer.'' rs))"
    by (simp add: initializerReturnError_def Lox_error_def x)
  then show ?case
    using ReturnStmt.prems(1) x rframe_errors[OF rframe_resolveExpr[OF rframe_refl]]
    by simp
qed simp_all

lemma initializer_reports:
  assumes "s \<in> set (body m)" and "keyword \<in> set (valueReturns s)"
  shows "initializerReturnError keyword
           \<in> set (errors (resolveFunction m FunctionType_INITIALIZER rs))"
proof -
  obtain n ps b where m: "m = FunctionDecl n ps b" by (cases m)
  define rs2 where "rs2 = fold (\<lambda>param x. Resolver_define param (Resolver_declare param x)) ps
                (beginScope (rs\<lparr>currentFunction := FunctionType_INITIALIZER\<rparr>))"
  have "rframe (rs\<lparr>currentFunction := FunctionType_INITIALIZER\<rparr>) rs2"
    unfolding rs2_def by (intro rframe_params rframe_then) simp
  then have cf: "currentFunction rs2 = FunctionType_INITIALIZER"
    by (simp add: rframe_def)
  have "initializerReturnError keyword \<in> set (errors (inOrder (map resolveStmt b) rs2))"
  proof (rule inOrder_member[where I = "\<lambda>r::Resolver. currentFunction r = FunctionType_INITIALIZER"
        and Q = "\<lambda>r::Resolver. initializerReturnError keyword \<in> set (errors r)" and s = s])
    show "s \<in> set b" using assms(1) m by simp
    show "currentFunction rs2 = FunctionType_INITIALIZER" by (rule cf)
  next
    fix r :: Resolver assume "currentFunction r = FunctionType_INITIALIZER"
    then show "initializerReturnError keyword \<in> set (errors (resolveStmt s r))"
      using assms(2) by (rule valueReturns_reported(1))
  next
    fix x and r :: Resolver assume "currentFunction r = FunctionType_INITIALIZER"
    then show "currentFunction (resolveStmt x r) = FunctionType_INITIALIZER"
      using rframe_fun[OF rframe_resolveStmt[OF rframe_refl, of r x]] by simp
  next
    fix x and r :: Resolver assume "initializerReturnError keyword \<in> set (errors r)"
    then show "initializerReturnError keyword \<in> set (errors (resolveStmt x r))"
      using rframe_errors[OF rframe_resolveStmt[OF rframe_refl, of r x]] by simp
  qed
  then show ?thesis
    by (simp add: m rs2_def Let_def endScope_def)
qed

lemma class_reports:
  assumes "m \<in> set ms" and "lexeme (name m) = ''init''"
    and "s \<in> set (body m)" and "keyword \<in> set (valueReturns s)"
  shows "initializerReturnError keyword \<in> set (errors (resolveStmt (ClassStmt n sc ms) rs))"
proof -
  let ?f = "\<lambda>m. resolveFunction m
                (if lexeme (name m) = ''init'' then FunctionType_INITIALIZER
                 else FunctionType_METHOD)"
  have "initializerReturnError keyword \<in> set (errors (inOrder (map ?f ms) r0))" for r0
  proof (rule inOrder_member[where I = "\<lambda>r::Resolver. True"
        and Q = "\<lambda>r::Resolver. initializerReturnError keyword \<in> set (errors r)" and s = m])
    show "m \<in> set ms" by (rule assms(1))
  next
    fix r :: Resolver
    show "initializerReturnError keyword \<in> set (errors (?f m r))"
      using initializer_reports[OF assms(3,4)] assms(2) by simp
  next
    fix x and r :: Resolver assume "initializerReturnError keyword \<in> set (errors r)"
    then show "initializerReturnError keyword \<in> set (errors (?f x r))"
      using rframe_errors[OF rframe_resolveFunction[OF rframe_refl]] by simp
  qed simp_all
  then show ?thesis
    by (simp add: Let_def endScope_def)
qed

section \<open>Construction\<close>


lemmas resolver_defs =
  resolve_def inOrder_def newResolver_def Lox_error_def beginScope_def endScope_def
  setInnermost_def Resolver_declare_def Resolver_define_def resolveLocal_def


section \<open>The hop count of an assignment in its own initializer\<close>

text \<open>
  C2 fails on the code. \<^verbatim>\<open>{ var a = a += 1; }\<close> passes the resolver without an error
  (the check for a read in the variable's own initializer is made for a variable
  expression only), the assignment node is annotated with depth 0, and when it is
  evaluated the environment 0 hops from the current one does not hold \<^verbatim>\<open>a\<close>: the read
  of the compound assignment yields nil, and the program runs to its end with
  \<^verbatim>\<open>a = nil + 1\<close>.
\<close>

theorem own_initializer_read:
  "errors (resolve ownInitializer (newResolver Map.empty)) = []
   \<and> locals ownInitializerStart 1 = Some 0
   \<and> ancestor (envs ownInitializerEntry) (Some (env ownInitializerEntry)) 0 = Some 1
   \<and> vals (envs ownInitializerEntry 1) ''a'' = None
   \<and> (\<exists>st'. visitExpr 2 h ownInitializerAssign ownInitializerEntry
               = Some (Inr (hostBinary h ownInitializerEntry PLUS VNil
                              (VNumber 0x3FF0000000000000)), st'))
   \<and> (\<exists>st'. evaluate 6 h ownInitializer ownInitializerStart = Some (None, st')
          \<and> \<not> hadRuntimeError st'
          \<and> vals (envs st' 1) ''a''
              = Some (hostBinary h ownInitializerEntry PLUS VNil (VNumber 0x3FF0000000000000)))"
  by (simp add: ownInitializer_def ownInitializerAssign_def ownInitializerStart_def
        ownInitializerEntry_def resolver_defs eval_nat_numeral evaluator_simps
        store_defs split_def)

section \<open>The parser, method by method\<close>

lemma peek_at: "current ps < length (tokens ps) \<Longrightarrow> peek ps = ret (tokens ps ! current ps) ps"
  by (simp add: peek_def)

lemma andThen_ret [simp]: "andThen (ret v s) f = f v s"
  by (simp add: andThen_def ret_def)

lemma atEnd_at:
  "current ps < length (tokens ps) \<Longrightarrow> atEnd ps = ret (type (tokens ps ! current ps) = EOF) ps"
  by (simp add: atEnd_def peek_at)

lemma check_at:
  "current ps < length (tokens ps) \<Longrightarrow>
   check ty ps = ret (type (tokens ps ! current ps) \<noteq> EOF \<and> type (tokens ps ! current ps) = ty) ps"
  by (simp add: check_def atEnd_at peek_at)

lemma advance_at:
  "current ps < length (tokens ps) \<Longrightarrow> type (tokens ps ! current ps) \<noteq> EOF \<Longrightarrow>
   advance ps = ret (tokens ps ! current ps) (ps\<lparr>current := Suc (current ps)\<rparr>)"
  by (simp add: advance_def atEnd_at previous_def)

lemma matchTypes_no:
  "current ps < length (tokens ps) \<Longrightarrow> type (tokens ps ! current ps) \<notin> set tys \<Longrightarrow>
   matchTypes tys ps = ret False ps"
  by (induction tys) (auto simp: check_at)

lemma matchTypes_yes:
  "current ps < length (tokens ps) \<Longrightarrow> type (tokens ps ! current ps) \<in> set tys \<Longrightarrow>
   EOF \<notin> set tys \<Longrightarrow>
   matchTypes tys ps = ret True (ps\<lparr>current := Suc (current ps)\<rparr>)"
  by (induction tys) (auto simp: check_at advance_at)

lemma consume_yes:
  "current ps < length (tokens ps) \<Longrightarrow> type (tokens ps ! current ps) = ty \<Longrightarrow> ty \<noteq> EOF \<Longrightarrow>
   consume ty m ps = ret (tokens ps ! current ps) (ps\<lparr>current := Suc (current ps)\<rparr>)"
  by (simp add: consume_def check_at advance_at)

declare matchTypes.simps [simp del]

lemma parseExpression:
  "parseExpr (Suc n) ParseExpression ps = parseExpr n ParseAssignment ps"
  by simp

lemma parseAssignment:
  "parseExpr (Suc n) ParseAssignment ps =
     andThen (parseExpr n ParseOr ps) (\<lambda>expr ps1.
     andThen (matchAssign ps1) (\<lambda>m ps2.
       if m then
         (let equals = previous ps2
          in andThen (parseExpr n ParseAssignment ps2) (\<lambda>v ps3.
               case expr of
                 VariableExpr i nm \<Rightarrow>
                   (let (j, ps4) = newNode ps3
                    in ret (AssignExpr j nm
                              (map_option (\<lambda>ty. equals\<lparr>type := ty\<rparr>)
                                 (assignToBinaryOperator (type equals))) v) ps4)
               | GetExpr obj nm \<Rightarrow>
                   ret (SetExpr obj nm
                          (map_option (\<lambda>ty. equals\<lparr>type := ty\<rparr>)
                             (assignToBinaryOperator (type equals))) v) ps3
               | _ \<Rightarrow> ret expr (Parser_error equals ''Invalid assignment target.'' ps3)))
       else ret expr ps2))"
  by simp

lemma parseOr:
  "parseExpr (Suc n) ParseOr ps =
     andThen (parseExpr n ParseAnd ps) (\<lambda>left. parseExpr n (OrLoop left))"
  by simp

lemma parseOrLoop:
  "parseExpr (Suc n) (OrLoop left) ps =
     andThen (matchTypes [OR] ps) (\<lambda>m ps1.
       if m then
         (let operator = previous ps1
          in andThen (parseExpr n ParseAnd ps1) (\<lambda>right.
               parseExpr n (OrLoop (LogicalExpr left operator right))))
       else ret left ps1)"
  by simp

lemma parseAnd:
  "parseExpr (Suc n) ParseAnd ps =
     andThen (parseExpr n ParseEquality ps) (\<lambda>left. parseExpr n (AndLoop left))"
  by simp

lemma parseAndLoop:
  "parseExpr (Suc n) (AndLoop left) ps =
     andThen (matchTypes [AND] ps) (\<lambda>m ps1.
       if m then
         (let operator = previous ps1
          in andThen (parseExpr n ParseEquality ps1) (\<lambda>right.
               parseExpr n (AndLoop (LogicalExpr left operator right))))
       else ret left ps1)"
  by simp

lemma parseEquality:
  "parseExpr (Suc n) ParseEquality ps =
     andThen (parseExpr n ParseComparison ps) (\<lambda>left. parseExpr n (EqualityLoop left))"
  by simp

lemma parseEqualityLoop:
  "parseExpr (Suc n) (EqualityLoop left) ps =
     andThen (matchTypes [BANG_EQ, EQ_EQ] ps) (\<lambda>m ps1.
       if m then
         (let operator = previous ps1
          in andThen (parseExpr n ParseComparison ps1) (\<lambda>right.
               parseExpr n (EqualityLoop (BinaryExpr left operator right))))
       else ret left ps1)"
  by simp

lemma parseComparison:
  "parseExpr (Suc n) ParseComparison ps =
     andThen (parseExpr n ParseTerm ps) (\<lambda>left. parseExpr n (ComparisonLoop left))"
  by simp

lemma parseComparisonLoop:
  "parseExpr (Suc n) (ComparisonLoop left) ps =
     andThen (matchTypes [LT, GT, LT_EQ, GT_EQ] ps) (\<lambda>m ps1.
       if m then
         (let operator = previous ps1
          in andThen (parseExpr n ParseTerm ps1) (\<lambda>right.
               parseExpr n (ComparisonLoop (BinaryExpr left operator right))))
       else ret left ps1)"
  by simp

lemma parseTerm:
  "parseExpr (Suc n) ParseTerm ps =
     andThen (parseExpr n ParseFactor ps) (\<lambda>left. parseExpr n (TermLoop left))"
  by simp

lemma parseTermLoop:
  "parseExpr (Suc n) (TermLoop left) ps =
     andThen (matchTypes [MINUS, PLUS] ps) (\<lambda>m ps1.
       if m then
         (let operator = previous ps1
          in andThen (parseExpr n ParseFactor ps1) (\<lambda>right.
               parseExpr n (TermLoop (BinaryExpr left operator right))))
       else ret left ps1)"
  by simp

lemma parseFactor:
  "parseExpr (Suc n) ParseFactor ps =
     andThen (parseExpr n ParseUnary ps) (\<lambda>left. parseExpr n (FactorLoop left))"
  by simp

lemma parseFactorLoop:
  "parseExpr (Suc n) (FactorLoop left) ps =
     andThen (matchTypes [SLASH, STAR, PERCENT] ps) (\<lambda>m ps1.
       if m then
         (let operator = previous ps1
          in andThen (parseExpr n ParseUnary ps1) (\<lambda>right.
               parseExpr n (FactorLoop (BinaryExpr left operator right))))
       else ret left ps1)"
  by simp

lemma parseUnary:
  "parseExpr (Suc n) ParseUnary ps =
     andThen (matchTypes [BANG, MINUS] ps) (\<lambda>m ps1.
       if m then
         (let operator = previous ps1
          in andThen (parseExpr n ParseUnary ps1) (\<lambda>right. ret (UnaryExpr operator right)))
       else parseExpr n ParseCall ps1)"
  by simp

lemma parseCall:
  "parseExpr (Suc n) ParseCall ps =
     andThen (parseExpr n ParsePrimary ps) (\<lambda>expr. parseExpr n (CallLoop expr))"
  by simp

lemma parseCallLoop:
  "parseExpr (Suc n) (CallLoop expr) ps =
     andThen (matchTypes [LPAREN] ps) (\<lambda>m ps1.
       if m then andThen (finishCall n expr ps1) (\<lambda>e. parseExpr n (CallLoop e))
       else
         andThen (matchTypes [DOT] ps1) (\<lambda>d ps2.
           if d then
             andThen (consume IDENTIFIER ''Expected property name after '.'.'' ps2)
               (\<lambda>nm. parseExpr n (CallLoop (GetExpr expr nm)))
           else ret expr ps2))"
  unfolding finishCall_def by simp

lemma finishCall_Suc:
  "finishCall (Suc n) callee ps =
     andThen (check RPAREN ps) (\<lambda>c ps1.
       if \<not> c then parseExpr n (ArgumentsLoop callee []) ps1
       else parseExpr n (FinishArguments callee []) ps1)"
  unfolding finishCall_def by simp

lemma parseArgumentsLoop:
  "parseExpr (Suc n) (ArgumentsLoop callee args) ps =
     andThen
       (if length args \<ge> 255
        then andThen (peek ps) (\<lambda>t ps1.
               ret () (Parser_error t ''Cannot have more than 255 arguments.'' ps1))
        else ret () ps)
       (\<lambda>u ps2.
          andThen (expression n ps2) (\<lambda>e ps3.
          andThen (matchTypes [COMMA] ps3) (\<lambda>m ps4.
            if m then parseExpr n (ArgumentsLoop callee (args @ [e])) ps4
            else parseExpr n (FinishArguments callee (args @ [e])) ps4)))"
  unfolding expression_def by simp

lemma parseFinishArguments:
  "parseExpr (Suc n) (FinishArguments callee args) ps =
     andThen (consume RPAREN ''Expected ')' after arguments.'' ps) (\<lambda>paren.
       ret (CallExpr callee paren args))"
  by simp

lemma parsePrimary:
  "parseExpr (Suc n) ParsePrimary ps =
     andThen (matchTypes [FALSE] ps) (\<lambda>m ps1.
     if m then ret (LiteralExpr (VBool False)) ps1 else
     andThen (matchTypes [TRUE] ps1) (\<lambda>m ps2.
     if m then ret (LiteralExpr (VBool True)) ps2 else
     andThen (matchTypes [NIL] ps2) (\<lambda>m ps3.
     if m then ret (LiteralExpr VNil) ps3 else
     andThen (matchTypes [NUMBER, STRING] ps3) (\<lambda>m ps4.
     if m then ret (LiteralExpr (literal (previous ps4))) ps4 else
     andThen (matchTypes [SUPER] ps4) (\<lambda>m ps5.
     if m then
       (let keyword = previous ps5
        in andThen (consume DOT ''Expected '.' after 'super'.'' ps5) (\<lambda>d ps6.
           andThen (consume IDENTIFIER ''Expected superclass method name.'' ps6)
             (\<lambda>method ps7.
                let (i, ps8) = newNode ps7 in ret (SuperExpr i keyword method) ps8)))
     else
     andThen (matchTypes [THIS] ps5) (\<lambda>m ps6.
     if m then (let (i, ps7) = newNode ps6 in ret (ThisExpr i (previous ps6)) ps7) else
     andThen (matchTypes [IDENTIFIER] ps6) (\<lambda>m ps7.
     if m then (let (i, ps8) = newNode ps7 in ret (VariableExpr i (previous ps7)) ps8) else
     andThen (matchTypes [LPAREN] ps7) (\<lambda>m ps8.
     if m then
       andThen (expression n ps8) (\<lambda>expr ps9.
       andThen (consume RPAREN ''Expected ')' after expression.'' ps9) (\<lambda>p.
         ret (GroupingExpr expr)))
     else throwError ''Expected expression.'' ps8))))))))"
  unfolding expression_def by simp

lemma expression_Suc: "expression (Suc n) ps = parseExpr n ParseAssignment ps"
  unfolding expression_def by simp

declare parseExpr.simps(2) [simp del]

lemmas parser_equations =
  parseExpression parseAssignment parseOr parseOrLoop parseAnd parseAndLoop parseEquality
  parseEqualityLoop parseComparison parseComparisonLoop parseTerm parseTermLoop parseFactor
  parseFactorLoop parseUnary parseCall parseCallLoop finishCall_Suc parseArgumentsLoop
  parseFinishArguments parsePrimary expression_Suc

section \<open>Argument and parameter lists\<close>

lemma loops_stop:
  assumes "current ps < length (tokens ps)"
    and "type (tokens ps ! current ps) \<in> {COMMA, RPAREN}"
  shows "parseExpr (Suc m) (CallLoop e) ps = ret e ps"
    and "parseExpr (Suc m) (FactorLoop e) ps = ret e ps"
    and "parseExpr (Suc m) (TermLoop e) ps = ret e ps"
    and "parseExpr (Suc m) (ComparisonLoop e) ps = ret e ps"
    and "parseExpr (Suc m) (EqualityLoop e) ps = ret e ps"
    and "parseExpr (Suc m) (AndLoop e) ps = ret e ps"
    and "parseExpr (Suc m) (OrLoop e) ps = ret e ps"
    and "matchAssign ps = ret False ps"
  using assms by (auto simp: parser_equations matchTypes_no matchAssign_def)

lemma primary_number:
  assumes "current ps < length (tokens ps)"
    and "type (tokens ps ! current ps) = NUMBER"
  shows "parseExpr (Suc m) ParsePrimary ps
           = ret (LiteralExpr (literal (tokens ps ! current ps))) (ps\<lparr>current := Suc (current ps)\<rparr>)"
  using assms by (simp add: parsePrimary matchTypes_no matchTypes_yes previous_def)

lemma expression_number:
  assumes "Suc (current ps) < length (tokens ps)"
    and "type (tokens ps ! current ps) = NUMBER"
    and "type (tokens ps ! Suc (current ps)) \<in> {COMMA, RPAREN}"
  shows "expression (11 + m) ps
           = ret (LiteralExpr (literal (tokens ps ! current ps))) (ps\<lparr>current := Suc (current ps)\<rparr>)"
proof -
  let ?e = "LiteralExpr (literal (tokens ps ! current ps))"
  let ?ps = "ps\<lparr>current := Suc (current ps)\<rparr>"
  have a: "current ps < length (tokens ps)" using assms(1) by simp
  have b: "current ?ps < length (tokens ?ps)" "type (tokens ?ps ! current ?ps) \<in> {COMMA, RPAREN}"
    using assms by simp_all
  note stop = loops_stop[OF b]
  have 1: "parseExpr (Suc (Suc m)) ParseCall ps = ret ?e ?ps"
    by (simp add: parseCall primary_number[OF a assms(2)] stop)
  have 2: "parseExpr (Suc (Suc (Suc m))) ParseUnary ps = ret ?e ?ps"
    using a assms(2) by (simp add: parseUnary matchTypes_no 1)
  have 3: "parseExpr (Suc (Suc (Suc (Suc m)))) ParseFactor ps = ret ?e ?ps"
    by (simp add: parseFactor 2 stop)
  have 4: "parseExpr (Suc (Suc (Suc (Suc (Suc m))))) ParseTerm ps = ret ?e ?ps"
    by (simp add: parseTerm 3 stop)
  have 5: "parseExpr (Suc (Suc (Suc (Suc (Suc (Suc m)))))) ParseComparison ps = ret ?e ?ps"
    by (simp add: parseComparison 4 stop)
  have 6: "parseExpr (Suc (Suc (Suc (Suc (Suc (Suc (Suc m))))))) ParseEquality ps = ret ?e ?ps"
    by (simp add: parseEquality 5 stop)
  have 7: "parseExpr (Suc (Suc (Suc (Suc (Suc (Suc (Suc (Suc m)))))))) ParseAnd ps = ret ?e ?ps"
    by (simp add: parseAnd 6 stop)
  have 8: "parseExpr (Suc (Suc (Suc (Suc (Suc (Suc (Suc (Suc (Suc m))))))))) ParseOr ps
             = ret ?e ?ps"
    by (simp add: parseOr 7 stop)
  have 9: "parseExpr (Suc (Suc (Suc (Suc (Suc (Suc (Suc (Suc (Suc (Suc m))))))))))
             ParseAssignment ps = ret ?e ?ps"
    by (simp add: parseAssignment 8 stop)
  have "11 + m = Suc (Suc (Suc (Suc (Suc (Suc (Suc (Suc (Suc (Suc (Suc m))))))))))"
    by simp
  then show ?thesis
    by (simp only: expression_Suc 9)
qed

lemma length_separated: "ts \<noteq> [] \<Longrightarrow> length (separated c ts) = 2 * length ts - 1"
  by (induction c ts rule: separated.induct) auto

lemma argumentsLoop_numbers:
  assumes "ts \<noteq> []" and "\<forall>t \<in> set ts. type t = NUMBER" and "type c = COMMA"
    and "type r = RPAREN"
    and "tokens ps = pre @ separated c ts @ r # rest" and "current ps = length pre"
  shows "parseExpr (length ts + 12 + m) (ArgumentsLoop callee acc) ps =
     ret (CallExpr callee r (acc @ map (\<lambda>t. LiteralExpr (literal t)) ts))
       (ps\<lparr>diagnostics := diagnostics ps @ map tooManyArguments (drop (255 - length acc) ts),
           current := length pre + 2 * length ts\<rparr>)"
  using assms
proof (induction ts arbitrary: pre acc ps)
  case Nil
  then show ?case by simp
next
  case (Cons t ts)
  define ps2 where "ps2 = (if 255 \<le> length acc
                            then Parser_error t ''Cannot have more than 255 arguments.'' ps
                            else ps)"
  have tok: "tokens ps2 = tokens ps" and cur: "current ps2 = length pre"
    using Cons.prems by (simp_all add: ps2_def Parser_error_def)
  have t0: "tokens ps ! length pre = t"
    using Cons.prems(5) by (cases ts) (simp_all add: nth_append)
  have tt: "type t = NUMBER" using Cons.prems(2) by simp
  have len: "Suc (length pre) < length (tokens ps)"
    using Cons.prems(5) by (cases ts) simp_all
  have t1: "tokens ps ! Suc (length pre) = (if ts = [] then r else c)"
  proof (cases ts)
    case Nil
    then show ?thesis using Cons.prems(5) by (simp add: nth_append)
  next
    case (Cons u us)
    then show ?thesis using Cons.prems(5) by (simp add: nth_append)
  qed
  have pk: "peek ps = ret t ps"
    using len Cons.prems(6) t0 by (simp add: peek_at)
  have first: "(if 255 \<le> length acc
        then andThen (peek ps) (\<lambda>t ps1.
               ret () (Parser_error t ''Cannot have more than 255 arguments.'' ps1))
        else ret () ps) = ret () ps2"
    by (simp add: pk ps2_def)
  have t1ty: "type (tokens ps2 ! Suc (current ps2)) \<in> {COMMA, RPAREN}"
    using tok cur t1 Cons.prems(3,4) by (cases "ts = []") simp_all
  define k where "k = Suc (length ts + 11 + m)"
  have ex0: "expression (11 + (length ts + m + 1)) ps2
              = ret (LiteralExpr (literal (tokens ps2 ! current ps2)))
                  (ps2\<lparr>current := Suc (current ps2)\<rparr>)"
    by (rule expression_number) (use tok cur t0 tt len t1ty in simp_all)
  have ar: "11 + (length ts + m + 1) = k" by (simp add: k_def)
  have ex: "expression k ps2
              = ret (LiteralExpr (literal t)) (ps2\<lparr>current := Suc (length pre)\<rparr>)"
    using ex0 unfolding ar by (simp add: tok cur t0)
  let ?ps3 = "ps2\<lparr>current := Suc (length pre)\<rparr>"
  have fuel: "length (t # ts) + 12 + m = Suc k" by (simp add: k_def)
  show ?case
  proof (cases ts)
    case Nil
    have nm: "matchTypes [COMMA] ?ps3 = ret False ?ps3"
      using tok len t1 Nil Cons.prems(4) by (simp add: matchTypes_no)
    have fin: "parseExpr k (FinishArguments callee (acc @ [LiteralExpr (literal t)])) ?ps3
        = ret (CallExpr callee r (acc @ [LiteralExpr (literal t)]))
            (?ps3\<lparr>current := Suc (Suc (length pre))\<rparr>)"
      unfolding k_def parseFinishArguments
      using tok len t1 Nil Cons.prems(4) by (simp add: consume_yes)
    show ?thesis
      unfolding fuel parseArgumentsLoop first
      by (simp add: ex nm fin Nil)
         (simp add: ps2_def Parser_error_def tooManyArguments_def)
  next
    case (Cons u us)
    let ?ps4 = "ps2\<lparr>current := Suc (Suc (length pre))\<rparr>"
    have ym: "matchTypes [COMMA] ?ps3 = ret True ?ps4"
      using tok len t1 Cons Cons.prems(3) by (simp add: matchTypes_yes)
    have ih: "parseExpr (length ts + 12 + m) (ArgumentsLoop callee (acc @ [LiteralExpr (literal t)])) ?ps4 =
     ret (CallExpr callee r ((acc @ [LiteralExpr (literal t)]) @ map (\<lambda>t. LiteralExpr (literal t)) ts))
       (?ps4\<lparr>diagnostics := diagnostics ?ps4 @ map tooManyArguments (drop (255 - length (acc @ [LiteralExpr (literal t)])) ts),
           current := length (pre @ [t, c]) + 2 * length ts\<rparr>)"
    proof (rule Cons.IH)
      show "ts \<noteq> []" using Cons by simp
      show "\<forall>t\<in>set ts. type t = NUMBER" using \<open>\<forall>t\<in>set (t # ts). type t = NUMBER\<close> by simp
      show "type c = COMMA" by fact
      show "type r = RPAREN" by fact
      show "tokens ?ps4 = (pre @ [t, c]) @ separated c ts @ r # rest"
        using tok \<open>tokens ps = pre @ separated c (t # ts) @ r # rest\<close> Cons by simp
      show "current ?ps4 = length (pre @ [t, c])" by simp
    qed
    have dr: "map tooManyArguments (drop (255 - length acc) (t # ts))
        = (if 255 \<le> length acc then [tooManyArguments t] else [])
          @ map tooManyArguments (drop (255 - Suc (length acc)) ts)"
      by (auto simp: drop_Cons' Suc_diff_le)
    have f2: "k = length ts + 12 + m" by (simp add: k_def)
    show ?thesis
      unfolding fuel parseArgumentsLoop first
      by (simp add: ex ym ih[folded f2] dr)
         (simp add: ps2_def Parser_error_def tooManyArguments_def)
  qed
qed

lemma finishCall_numbers:
  assumes "ts \<noteq> []" and "\<forall>t \<in> set ts. type t = NUMBER" and "type c = COMMA"
    and "type r = RPAREN"
    and "tokens ps = pre @ separated c ts @ r # rest" and "current ps = length pre"
  shows "finishCall (length ts + 13 + m) callee ps =
     ret (CallExpr callee r (map (\<lambda>t. LiteralExpr (literal t)) ts))
       (ps\<lparr>diagnostics := diagnostics ps @ map tooManyArguments (drop 255 ts),
           current := length pre + 2 * length ts\<rparr>)"
proof -
  obtain t ts' where ts: "ts = t # ts'" using assms(1) by (cases ts) auto
  have t0: "tokens ps ! length pre = t"
    using assms(5) ts by (cases ts') (simp_all add: nth_append)
  have len: "length pre < length (tokens ps)"
    using assms(5) ts by (cases ts') simp_all
  have ck: "check RPAREN ps = ret False ps"
    using len t0 assms(2,6) ts by (simp add: check_at)
  have f: "length ts + 13 + m = Suc (length ts + 12 + m)" by simp
  show ?thesis
    unfolding f finishCall_Suc ck
    using argumentsLoop_numbers[OF assms, of m callee "[]"] by simp
qed

lemma parametersLoop_identifiers:
  assumes "ts \<noteq> []" and "\<forall>t \<in> set ts. type t = IDENTIFIER" and "type c = COMMA"
    and "type r = RPAREN"
    and "tokens ps = pre @ separated c ts @ r # rest" and "current ps = length pre"
  shows "parametersLoop (length ts + m) acc ps =
     ret (acc @ ts)
       (ps\<lparr>diagnostics := diagnostics ps @ map tooManyParameters (drop (255 - length acc) ts),
           current := length pre + 2 * length ts - 1\<rparr>)"
  using assms
proof (induction ts arbitrary: pre acc ps)
  case Nil
  then show ?case by simp
next
  case (Cons t ts)
  define ps2 where "ps2 = (if 255 \<le> length acc
                            then Parser_error t ''Cannot have more than 255 parameters.'' ps
                            else ps)"
  have tok: "tokens ps2 = tokens ps" and cur: "current ps2 = length pre"
    using Cons.prems by (simp_all add: ps2_def Parser_error_def)
  have t0: "tokens ps ! length pre = t"
    using Cons.prems(5) by (cases ts) (simp_all add: nth_append)
  have tt: "type t = IDENTIFIER" using Cons.prems(2) by simp
  have len: "Suc (length pre) < length (tokens ps)"
    using Cons.prems(5) by (cases ts) simp_all
  have t1: "tokens ps ! Suc (length pre) = (if ts = [] then r else c)"
  proof (cases ts)
    case Nil
    then show ?thesis using Cons.prems(5) by (simp add: nth_append)
  next
    case (Cons u us)
    then show ?thesis using Cons.prems(5) by (simp add: nth_append)
  qed
  have pk: "peek ps = ret t ps"
    using len Cons.prems(6) t0 by (simp add: peek_at)
  have first: "(if 255 \<le> length acc
        then andThen (peek ps) (\<lambda>t ps1.
               ret () (Parser_error t ''Cannot have more than 255 parameters.'' ps1))
        else ret () ps) = ret () ps2"
    by (simp add: pk ps2_def)
  let ?ps3 = "ps2\<lparr>current := Suc (length pre)\<rparr>"
  have co: "consume IDENTIFIER ''Expected parameter name.'' ps2 = ret t ?ps3"
    using tok cur len t0 tt by (simp add: consume_yes)
  have fuel: "length (t # ts) + m = Suc (length ts + m)" by simp
  show ?case
  proof (cases ts)
    case Nil
    have nm: "matchTypes [COMMA] ?ps3 = ret False ?ps3"
      using tok len t1 Nil Cons.prems(4) by (simp add: matchTypes_no)
    show ?thesis
      unfolding fuel parametersLoop.simps first
      by (simp add: co nm Nil)
         (simp add: ps2_def Parser_error_def tooManyParameters_def)
  next
    case (Cons u us)
    let ?ps4 = "ps2\<lparr>current := Suc (Suc (length pre))\<rparr>"
    have ym: "matchTypes [COMMA] ?ps3 = ret True ?ps4"
      using tok len t1 Cons Cons.prems(3) by (simp add: matchTypes_yes)
    have ih: "parametersLoop (length ts + m) (acc @ [t]) ?ps4 =
     ret ((acc @ [t]) @ ts)
       (?ps4\<lparr>diagnostics := diagnostics ?ps4 @ map tooManyParameters (drop (255 - length (acc @ [t])) ts),
           current := length (pre @ [t, c]) + 2 * length ts - 1\<rparr>)"
    proof (rule Cons.IH)
      show "ts \<noteq> []" using Cons by simp
      show "\<forall>t\<in>set ts. type t = IDENTIFIER"
        using \<open>\<forall>t\<in>set (t # ts). type t = IDENTIFIER\<close> by simp
      show "type c = COMMA" by fact
      show "type r = RPAREN" by fact
      show "tokens ?ps4 = (pre @ [t, c]) @ separated c ts @ r # rest"
        using tok \<open>tokens ps = pre @ separated c (t # ts) @ r # rest\<close> Cons by simp
      show "current ?ps4 = length (pre @ [t, c])" by simp
    qed
    have dr: "map tooManyParameters (drop (255 - length acc) (t # ts))
        = (if 255 \<le> length acc then [tooManyParameters t] else [])
          @ map tooManyParameters (drop (255 - Suc (length acc)) ts)"
      by (auto simp: drop_Cons' Suc_diff_le)
    show ?thesis
      unfolding fuel parametersLoop.simps first
      by (simp add: co ym ih dr)
         (simp add: ps2_def Parser_error_def tooManyParameters_def)
  qed
qed




end
